theory Spec2Isabelle
  imports Complex_Main
begin

section \<open>Arithmetic and vectors\<close>

text \<open>
  The shader (\<^verbatim>\<open>parallax_mapping.fs\<close>) and the camera (\<^verbatim>\<open>Camera.h\<close>) compute with
  \<^verbatim>\<open>float\<close>. There are two embeddings. The first, of the shader and of the camera, is
  over the real numbers: every operation is exact, there is no rounding, no infinity and
  no NaN. Where the source divides by a value that can be zero (a division by a variable,
  \<^verbatim>\<open>normalize\<close> of a vector that can be the zero vector) the source's result is not a
  number; the embedding returns \<open>Inl DivisionByZero\<close> there instead of HOL's \<open>x / 0 = 0\<close>. It
  serves the properties that do not depend on rounding. The second embedding, of
  \<^verbatim>\<open>ParallaxMapping\<close> alone, rounds every operation to binary32; it serves the properties
  that speak of an exact count or an exact value.
\<close>

datatype error = DivisionByZero

datatype vec2 = vec2 (vec2_x: real) (vec2_y: real)

datatype vec3 = vec3 (vec3_x: real) (vec3_y: real) (vec3_z: real)

datatype vec4 = vec4 (vec4_x: real) (vec4_y: real) (vec4_z: real) (vec4_w: real)

definition vec2_add :: "vec2 \<Rightarrow> vec2 \<Rightarrow> vec2" where
  "vec2_add a b = vec2 (vec2_x a + vec2_x b) (vec2_y a + vec2_y b)"

definition vec2_sub :: "vec2 \<Rightarrow> vec2 \<Rightarrow> vec2" where
  "vec2_sub a b = vec2 (vec2_x a - vec2_x b) (vec2_y a - vec2_y b)"

definition vec2_scale :: "vec2 \<Rightarrow> real \<Rightarrow> vec2" where
  "vec2_scale a k = vec2 (vec2_x a * k) (vec2_y a * k)"

text \<open>Division of a vector by a scalar that the caller knows to be non-zero.\<close>

definition vec2_div :: "vec2 \<Rightarrow> real \<Rightarrow> vec2" where
  "vec2_div a k = vec2 (vec2_x a / k) (vec2_y a / k)"

definition vec3_xy :: "vec3 \<Rightarrow> vec2" where
  "vec3_xy v = vec2 (vec3_x v) (vec3_y v)"

definition vec3_add :: "vec3 \<Rightarrow> vec3 \<Rightarrow> vec3" where
  "vec3_add a b = vec3 (vec3_x a + vec3_x b) (vec3_y a + vec3_y b) (vec3_z a + vec3_z b)"

definition vec3_sub :: "vec3 \<Rightarrow> vec3 \<Rightarrow> vec3" where
  "vec3_sub a b = vec3 (vec3_x a - vec3_x b) (vec3_y a - vec3_y b) (vec3_z a - vec3_z b)"

definition vec3_scale :: "vec3 \<Rightarrow> real \<Rightarrow> vec3" where
  "vec3_scale a k = vec3 (vec3_x a * k) (vec3_y a * k) (vec3_z a * k)"

definition vec3_neg :: "vec3 \<Rightarrow> vec3" where
  "vec3_neg a = vec3 (- vec3_x a) (- vec3_y a) (- vec3_z a)"

definition dot :: "vec3 \<Rightarrow> vec3 \<Rightarrow> real" where
  "dot a b = vec3_x a * vec3_x b + vec3_y a * vec3_y b + vec3_z a * vec3_z b"

text \<open>\<^verbatim>\<open>cross(x, y)\<close>, component by component as GLM and GLSL define it.\<close>

definition cross :: "vec3 \<Rightarrow> vec3 \<Rightarrow> vec3" where
  "cross a b = vec3 (vec3_y a * vec3_z b - vec3_y b * vec3_z a)
                    (vec3_z a * vec3_x b - vec3_z b * vec3_x a)
                    (vec3_x a * vec3_y b - vec3_x b * vec3_y a)"

text \<open>
  \<^verbatim>\<open>normalize(v)\<close> is \<open>v * inversesqrt(dot(v, v))\<close>. For the zero vector the source
  computes \<open>0 * (1 / 0)\<close>, which is not a number: the error branch.
\<close>

definition vec3_normalize :: "vec3 \<Rightarrow> error + vec3" where
  "vec3_normalize v = (if dot v v = 0 then Inl DivisionByZero
                  else Inr (vec3_scale v (1 / sqrt (dot v v))))"

section \<open>The fragment shader \<^verbatim>\<open>parallax_mapping.fs\<close>\<close>

text \<open>
  A \<^verbatim>\<open>sampler2D\<close> read through \<^verbatim>\<open>texture(map, uv).r\<close> is a function from coordinates to
  the red channel; read through \<^verbatim>\<open>.rgb\<close> it is a function to \<open>vec3\<close>.
\<close>

type_synonym sampler_r = "vec2 \<Rightarrow> real"

type_synonym sampler_rgb = "vec2 \<Rightarrow> vec3"

text \<open>A height field that has the same value at every coordinate.\<close>

definition constant_field :: "real \<Rightarrow> sampler_r" where
  "constant_field h uv = h"

subsection \<open>\<^verbatim>\<open>ParallaxMapping\<close>\<close>

text \<open>
  The local variables of \<^verbatim>\<open>ParallaxMapping\<close> that are live across the \<^verbatim>\<open>while\<close> loop.
  \<open>iterations\<close> is not a variable of the source: it counts the executions of the loop
  body, and nothing the source computes reads it.
\<close>

record locals =
  layerDepth :: real
  currentLayerDepth :: real
  deltaTexCoords :: vec2
  currentTexCoords :: vec2
  currentDepthMapValue :: real
  iterations :: nat

definition numLayers :: real where
  "numLayers = 10"

text \<open>
  Lines 21 to 31, up to the loop. \<^verbatim>\<open>viewDir.xy / viewDir.z * heightScale\<close> divides by
  \<^verbatim>\<open>viewDir.z\<close> with no guard in the source.
\<close>

definition loop_entry :: "sampler_r \<Rightarrow> vec2 \<Rightarrow> vec2 \<Rightarrow> locals" where
  "loop_entry depthMap delta texCoords =
     \<lparr>layerDepth = 1 / numLayers,
      currentLayerDepth = 0,
      deltaTexCoords = delta,
      currentTexCoords = texCoords,
      currentDepthMapValue = depthMap texCoords,
      iterations = 0\<rparr>"

definition ParallaxMapping_prologue ::
  "sampler_r \<Rightarrow> real \<Rightarrow> vec2 \<Rightarrow> vec3 \<Rightarrow> error + locals" where
  "ParallaxMapping_prologue depthMap heightScale texCoords viewDir =
     (if vec3_z viewDir = 0 then Inl DivisionByZero
      else
        let P = vec2_scale (vec2_div (vec3_xy viewDir) (vec3_z viewDir)) heightScale
        in Inr (loop_entry depthMap (vec2_div P numLayers) texCoords))"

text \<open>The body of the \<^verbatim>\<open>while\<close> loop, lines 35 to 40.\<close>

definition loop_body :: "sampler_r \<Rightarrow> locals \<Rightarrow> locals" where
  "loop_body depthMap s =
     (let tc = vec2_sub (currentTexCoords s) (deltaTexCoords s)
      in s\<lparr>currentTexCoords := tc,
            currentDepthMapValue := depthMap tc,
            currentLayerDepth := currentLayerDepth s + layerDepth s,
            iterations := Suc (iterations s)\<rparr>)"

text \<open>
  The \<^verbatim>\<open>while\<close> loop, lines 33 to 41. Nothing in the source bounds the number of
  iterations, so the loop is a partial function: \<open>None\<close> is a loop that never exits.
\<close>

partial_function (option) march :: "sampler_r \<Rightarrow> locals \<Rightarrow> locals option" where
  "march depthMap s =
     (if currentLayerDepth s < currentDepthMapValue s
      then march depthMap (loop_body depthMap s)
      else Some s)"

text \<open>
  Lines 43 to 54, after the loop. \<^verbatim>\<open>afterDepth / (afterDepth - beforeDepth)\<close> is the
  second unguarded division.
\<close>

definition ParallaxMapping_epilogue :: "sampler_r \<Rightarrow> locals \<Rightarrow> error + vec2" where
  "ParallaxMapping_epilogue depthMap s =
     (let prevTexCoords = vec2_add (currentTexCoords s) (deltaTexCoords s);
          afterDepth = currentDepthMapValue s - currentLayerDepth s;
          beforeDepth = depthMap prevTexCoords - currentLayerDepth s + layerDepth s
      in if afterDepth - beforeDepth = 0 then Inl DivisionByZero
         else
           let weight = afterDepth / (afterDepth - beforeDepth)
           in Inr (vec2_add (vec2_scale prevTexCoords weight)
                            (vec2_scale (currentTexCoords s) (1 - weight))))"

text \<open>\<^verbatim>\<open>ParallaxMapping\<close> up to the exit of its loop: the locals at that point.\<close>

definition ParallaxMapping_loop ::
  "sampler_r \<Rightarrow> real \<Rightarrow> vec2 \<Rightarrow> vec3 \<Rightarrow> (error + locals) option" where
  "ParallaxMapping_loop depthMap heightScale texCoords viewDir =
     (case ParallaxMapping_prologue depthMap heightScale texCoords viewDir of
        Inl e \<Rightarrow> Some (Inl e)
      | Inr s \<Rightarrow> map_option Inr (march depthMap s))"

text \<open>
  The whole function. \<open>None\<close>: the loop never exits; \<open>Some (Inl DivisionByZero)\<close>: one of
  the two divisions has a zero divisor; \<open>Some (Inr uv)\<close>: the returned coordinate.
  \<^verbatim>\<open>depthMap\<close> and \<^verbatim>\<open>heightScale\<close> are uniforms of the shader, here parameters.
\<close>

definition ParallaxMapping ::
  "sampler_r \<Rightarrow> real \<Rightarrow> vec2 \<Rightarrow> vec3 \<Rightarrow> (error + vec2) option" where
  "ParallaxMapping depthMap heightScale texCoords viewDir =
     (case ParallaxMapping_loop depthMap heightScale texCoords viewDir of
        None \<Rightarrow> None
      | Some (Inl e) \<Rightarrow> Some (Inl e)
      | Some (Inr s) \<Rightarrow> Some (ParallaxMapping_epilogue depthMap s))"

subsection \<open>\<^verbatim>\<open>main\<close>\<close>

record VS_OUT =
  FragPos :: vec3
  TexCoords :: vec2
  TangentLightPos :: vec3
  TangentViewPos :: vec3
  TangentFragPos :: vec3

text \<open>What the shader does with the fragment: \<^verbatim>\<open>discard\<close>, or a colour written to \<^verbatim>\<open>FragColor\<close>.\<close>

datatype fragment = Discarded | FragColor vec4

text \<open>
  Lines 67 to 83: the lookups and the lighting, at the coordinate \<open>texCoords\<close>.
  \<^verbatim>\<open>reflectDir\<close> is computed by the source and never read. The base of \<^verbatim>\<open>pow\<close> is at
  least 0 and its exponent is the constant 32.
\<close>

definition shade ::
  "sampler_rgb \<Rightarrow> sampler_rgb \<Rightarrow> VS_OUT \<Rightarrow> vec3 \<Rightarrow> vec2 \<Rightarrow> error + fragment" where
  "shade diffuseMap normalMap fs_in viewDir texCoords =
     (case vec3_normalize (vec3_sub (vec3_scale (normalMap texCoords) 2) (vec3 1 1 1)) of
        Inl e \<Rightarrow> Inl e
      | Inr normal \<Rightarrow>
         (let color = diffuseMap texCoords;
              ambient = vec3_scale color 0.1
          in case vec3_normalize (vec3_sub (TangentLightPos fs_in) (TangentFragPos fs_in)) of
               Inl e \<Rightarrow> Inl e
             | Inr lightDir \<Rightarrow>
                (let diff = max (dot lightDir normal) 0;
                     diffuse = vec3_scale color diff
                 in case vec3_normalize (vec3_add lightDir viewDir) of
                      Inl e \<Rightarrow> Inl e
                    | Inr halfwayDir \<Rightarrow>
                       (let spec = (max (dot normal halfwayDir) 0) ^ 32;
                            specular = vec3_scale (vec3 0.2 0.2 0.2) spec;
                            rgb = vec3_add (vec3_add ambient diffuse) specular
                        in Inr (FragColor (vec4 (vec3_x rgb) (vec3_y rgb) (vec3_z rgb) 1))))))"

text \<open>The test of line 63.\<close>

definition out_of_range :: "vec2 \<Rightarrow> bool" where
  "out_of_range texCoords \<longleftrightarrow>
     vec2_x texCoords > 1 \<or> vec2_y texCoords > 1 \<or> vec2_x texCoords < 0 \<or> vec2_y texCoords < 0"

definition main ::
  "sampler_rgb \<Rightarrow> sampler_rgb \<Rightarrow> sampler_r \<Rightarrow> real \<Rightarrow> VS_OUT \<Rightarrow> (error + fragment) option" where
  "main diffuseMap normalMap depthMap heightScale fs_in =
     (case vec3_normalize (vec3_sub (TangentViewPos fs_in) (TangentFragPos fs_in)) of
        Inl e \<Rightarrow> Some (Inl e)
      | Inr viewDir \<Rightarrow>
         (case ParallaxMapping depthMap heightScale (TexCoords fs_in) viewDir of
            None \<Rightarrow> None
          | Some (Inl e) \<Rightarrow> Some (Inl e)
          | Some (Inr texCoords) \<Rightarrow>
             if out_of_range texCoords then Some (Inr Discarded)
             else Some (shade diffuseMap normalMap fs_in viewDir texCoords)))"

text \<open>
  The number of times the body of the loop runs in one call of \<^verbatim>\<open>ParallaxMapping\<close>.
\<close>

definition ParallaxMapping_iterations ::
  "sampler_r \<Rightarrow> real \<Rightarrow> vec2 \<Rightarrow> vec3 \<Rightarrow> (error + nat) option" where
  "ParallaxMapping_iterations depthMap heightScale texCoords viewDir =
     map_option (map_sum id iterations)
       (ParallaxMapping_loop depthMap heightScale texCoords viewDir)"

text \<open>A height field with a step: depth 1 left of the middle, depth 1/4 right of it.\<close>

definition step_field :: sampler_r where
  "step_field uv = (if vec2_x uv < 1 / 2 then 1 else 1 / 4)"

section \<open>The camera \<^verbatim>\<open>Camera.h\<close>\<close>

datatype Camera_Movement = FORWARD | BACKWARD | LEFT | RIGHT | UP | DOWN

definition YAW :: real where "YAW = - 90"

definition PITCH :: real where "PITCH = 0"

definition SPEED :: real where "SPEED = 2.5"

definition SENSITIVITY :: real where "SENSITIVITY = 0.1"

definition ZOOM :: real where "ZOOM = 45"

record Camera =
  Position :: vec3
  Front :: vec3
  Up :: vec3
  Right :: vec3
  WorldUp :: vec3
  Yaw :: real
  Pitch :: real
  MovementSpeed :: real
  MouseSensitivity :: real
  Zoom :: real

text \<open>\<^verbatim>\<open>glm::radians\<close>: degrees to radians.\<close>

definition radians :: "real \<Rightarrow> real" where
  "radians degrees = degrees * pi / 180"

text \<open>The vector that \<^verbatim>\<open>updateCameraVectors\<close> builds from the two Euler angles, lines 187 to 190.\<close>

definition euler_front :: "real \<Rightarrow> real \<Rightarrow> vec3" where
  "euler_front yaw pitch =
     vec3 (cos (radians yaw) * cos (radians pitch))
          (sin (radians pitch))
          (sin (radians yaw) * cos (radians pitch))"

text \<open>
  \<^verbatim>\<open>updateCameraVectors\<close>: three calls of \<^verbatim>\<open>glm::normalize\<close>, each of which fails on the zero
  vector.
\<close>

definition updateCameraVectors :: "Camera \<Rightarrow> error + Camera" where
  "updateCameraVectors c =
     (case vec3_normalize (euler_front (Yaw c) (Pitch c)) of
        Inl e \<Rightarrow> Inl e
      | Inr front \<Rightarrow>
         (case vec3_normalize (cross front (WorldUp c)) of
            Inl e \<Rightarrow> Inl e
          | Inr right \<Rightarrow>
             (case vec3_normalize (cross right front) of
                Inl e \<Rightarrow> Inl e
              | Inr up \<Rightarrow> Inr (c\<lparr>Front := front, Right := right, Up := up\<rparr>))))"

text \<open>
  The constructor with vectors, lines 45 to 52. The member initialisers set \<^verbatim>\<open>Front\<close> and the
  three options; \<^verbatim>\<open>Up\<close> and \<^verbatim>\<open>Right\<close> are first written by \<^verbatim>\<open>updateCameraVectors\<close>, so
  their value before that call does not reach the result.
\<close>

definition Camera_new :: "vec3 \<Rightarrow> vec3 \<Rightarrow> real \<Rightarrow> real \<Rightarrow> error + Camera" where
  "Camera_new position up yaw pitch =
     updateCameraVectors
       \<lparr>Position = position, Front = vec3 0 0 (- 1), Up = vec3 0 0 0, Right = vec3 0 0 0,
        WorldUp = up, Yaw = yaw, Pitch = pitch,
        MovementSpeed = SPEED, MouseSensitivity = SENSITIVITY, Zoom = ZOOM\<rparr>"

text \<open>\<^verbatim>\<open>glm::mat4\<close> is column-major: \<^verbatim>\<open>m[c][r]\<close> is row \<open>r\<close> of column \<open>c\<close>.\<close>

datatype mat4 = mat4 (col0: vec4) (col1: vec4) (col2: vec4) (col3: vec4)

definition vec4_add :: "vec4 \<Rightarrow> vec4 \<Rightarrow> vec4" where
  "vec4_add a b = vec4 (vec4_x a + vec4_x b) (vec4_y a + vec4_y b)
                       (vec4_z a + vec4_z b) (vec4_w a + vec4_w b)"

definition vec4_scale :: "vec4 \<Rightarrow> real \<Rightarrow> vec4" where
  "vec4_scale a k = vec4 (vec4_x a * k) (vec4_y a * k) (vec4_z a * k) (vec4_w a * k)"

text \<open>
  Matrix times column vector, and matrix times matrix, as GLM defines them, in exact
  arithmetic, where the order of the additions does not matter. The order in which GLM
  rounds them is not in the repository.
\<close>

definition mat4_mul_vec4 :: "mat4 \<Rightarrow> vec4 \<Rightarrow> vec4" where
  "mat4_mul_vec4 m v =
     vec4_add (vec4_add (vec4_scale (col0 m) (vec4_x v)) (vec4_scale (col1 m) (vec4_y v)))
              (vec4_add (vec4_scale (col2 m) (vec4_z v)) (vec4_scale (col3 m) (vec4_w v)))"

definition mat4_mul :: "mat4 \<Rightarrow> mat4 \<Rightarrow> mat4" where
  "mat4_mul a b = mat4 (mat4_mul_vec4 a (col0 b)) (mat4_mul_vec4 a (col1 b))
                       (mat4_mul_vec4 a (col2 b)) (mat4_mul_vec4 a (col3 b))"

text \<open>\<^verbatim>\<open>calc_lookat\<close>, lines 63 to 87.\<close>

definition calc_lookat :: "vec3 \<Rightarrow> vec3 \<Rightarrow> vec3 \<Rightarrow> error + mat4" where
  "calc_lookat position target worldup =
     (case vec3_normalize (vec3_sub position target) of
        Inl e \<Rightarrow> Inl e
      | Inr cameraDirection \<Rightarrow>
         (case vec3_normalize (cross worldup cameraDirection) of
            Inl e \<Rightarrow> Inl e
          | Inr cameraRight \<Rightarrow>
             (let cameraUp = cross cameraDirection cameraRight;
                  translation =
                    mat4 (vec4 1 0 0 0) (vec4 0 1 0 0) (vec4 0 0 1 0)
                         (vec4 (- vec3_x position) (- vec3_y position) (- vec3_z position) 1);
                  rotation =
                    mat4 (vec4 (vec3_x cameraRight) (vec3_x cameraUp) (vec3_x cameraDirection) 0)
                         (vec4 (vec3_y cameraRight) (vec3_y cameraUp) (vec3_y cameraDirection) 0)
                         (vec4 (vec3_z cameraRight) (vec3_z cameraUp) (vec3_z cameraDirection) 0)
                         (vec4 0 0 0 1)
              in Inr (mat4_mul rotation translation))))"

definition GetViewMatrix :: "Camera \<Rightarrow> error + mat4" where
  "GetViewMatrix c = calc_lookat (Position c) (vec3_add (Position c) (Front c)) (Up c)"

text \<open>
  \<^verbatim>\<open>ProcessKeyboard\<close>, lines 129 to 148: six \<^verbatim>\<open>if\<close> statements one after the other, the
  first two with two assignments each.
\<close>

definition ProcessKeyboard :: "Camera_Movement \<Rightarrow> real \<Rightarrow> Camera \<Rightarrow> Camera" where
  "ProcessKeyboard direction deltaTime c0 =
     (let velocity = MovementSpeed c0 * deltaTime;
          c1 = (if direction = FORWARD
                then (let c = c0\<lparr>Position := vec3_add (Position c0) (vec3_scale (Front c0) velocity)\<rparr>
                      in c\<lparr>Position := vec3_add (Position c) (vec3_scale (Front c) velocity)\<rparr>)
                else c0);
          c2 = (if direction = BACKWARD
                then (let c = c1\<lparr>Position := vec3_sub (Position c1) (vec3_scale (Front c1) velocity)\<rparr>
                      in c\<lparr>Position := vec3_sub (Position c) (vec3_scale (Front c) velocity)\<rparr>)
                else c1);
          c3 = (if direction = LEFT
                then c2\<lparr>Position := vec3_sub (Position c2) (vec3_scale (Right c2) velocity)\<rparr>
                else c2);
          c4 = (if direction = RIGHT
                then c3\<lparr>Position := vec3_add (Position c3) (vec3_scale (Right c3) velocity)\<rparr>
                else c3);
          c5 = (if direction = UP
                then c4\<lparr>Position := vec3_add (Position c4) (vec3_scale (Up c4) velocity)\<rparr>
                else c4);
          c6 = (if direction = DOWN
                then c5\<lparr>Position := vec3_sub (Position c5) (vec3_scale (Up c5) velocity)\<rparr>
                else c5)
      in c6)"

text \<open>
  \<^verbatim>\<open>ProcessMouseMovement\<close>, lines 151 to 170. The first definition is the update of the two
  angles (lines 153 to 166), the second adds the call of \<^verbatim>\<open>updateCameraVectors\<close>.
\<close>

definition ProcessMouseMovement_angles :: "real \<Rightarrow> real \<Rightarrow> bool \<Rightarrow> Camera \<Rightarrow> Camera" where
  "ProcessMouseMovement_angles xoffset yoffset constrainPitch c0 =
     (let xoffset = xoffset * MouseSensitivity c0;
          yoffset = yoffset * MouseSensitivity c0;
          c1 = c0\<lparr>Yaw := Yaw c0 + xoffset\<rparr>;
          c2 = c1\<lparr>Pitch := Pitch c1 + yoffset\<rparr>
      in if constrainPitch
         then (let c3 = (if Pitch c2 > 89 then c2\<lparr>Pitch := 89\<rparr> else c2);
                   c4 = (if Pitch c3 < - 89 then c3\<lparr>Pitch := - 89\<rparr> else c3)
               in c4)
         else c2)"

definition ProcessMouseMovement :: "real \<Rightarrow> real \<Rightarrow> bool \<Rightarrow> Camera \<Rightarrow> error + Camera" where
  "ProcessMouseMovement xoffset yoffset constrainPitch c =
     updateCameraVectors (ProcessMouseMovement_angles xoffset yoffset constrainPitch c)"

text \<open>
  A sequence of calls of \<^verbatim>\<open>ProcessMouseMovement\<close>, each with its two offsets and its
  \<^verbatim>\<open>constrainPitch\<close>; the run stops at the first call whose basis is not a number.
\<close>

fun rotate_all :: "Camera \<Rightarrow> (real \<times> real \<times> bool) list \<Rightarrow> error + Camera" where
  "rotate_all c [] = Inr c"
| "rotate_all c ((xoffset, yoffset, constrainPitch) # calls) =
     (case ProcessMouseMovement xoffset yoffset constrainPitch c of
        Inl e \<Rightarrow> Inl e
      | Inr c' \<Rightarrow> rotate_all c' calls)"

text \<open>\<^verbatim>\<open>ProcessMouseScroll\<close>, lines 173 to 180.\<close>

definition ProcessMouseScroll :: "real \<Rightarrow> Camera \<Rightarrow> Camera" where
  "ProcessMouseScroll yoffset c0 =
     (let c1 = c0\<lparr>Zoom := Zoom c0 - yoffset\<rparr>;
          c2 = (if Zoom c1 < 1 then c1\<lparr>Zoom := 1\<rparr> else c1);
          c3 = (if Zoom c2 > 45 then c2\<lparr>Zoom := 45\<rparr> else c2)
      in c3)"

text \<open>A sequence of calls of \<^verbatim>\<open>ProcessMouseScroll\<close>, first offset first.\<close>

fun zoom_all :: "Camera \<Rightarrow> real list \<Rightarrow> Camera" where
  "zoom_all c [] = c"
| "zoom_all c (yoffset # yoffsets) = zoom_all (ProcessMouseScroll yoffset c) yoffsets"

text \<open>
  The basis of a camera is orthonormal: three unit vectors, each orthogonal to the other
  two, with \<open>Up = Right \<times> Front\<close>, so that \<open>Right \<times> Up = - Front\<close> (the frame Right, Up,
  minus Front is right-handed, the camera looking down its negative third axis).
\<close>

definition orthonormal :: "Camera \<Rightarrow> bool" where
  "orthonormal c \<longleftrightarrow>
     dot (Front c) (Front c) = 1 \<and> dot (Right c) (Right c) = 1 \<and> dot (Up c) (Up c) = 1 \<and>
     dot (Front c) (Right c) = 0 \<and> dot (Front c) (Up c) = 0 \<and> dot (Right c) (Up c) = 0 \<and>
     cross (Right c) (Front c) = Up c \<and> cross (Right c) (Up c) = vec3_neg (Front c)"

text \<open>The camera of \<^verbatim>\<open>main.cpp\<close>, line 26: \<^verbatim>\<open>Camera camera(glm::vec3(0.0f, 0.0f, 3.0f))\<close>.\<close>

definition main_camera :: Camera where
  "main_camera =
     \<lparr>Position = vec3 0 0 3, Front = vec3 0 0 (- 1), Up = vec3 0 1 0, Right = vec3 1 0 0,
      WorldUp = vec3 0 1 0, Yaw = - 90, Pitch = 0,
      MovementSpeed = 2.5, MouseSensitivity = 0.1, Zoom = 45\<rparr>"

text \<open>
  The camera that \<^verbatim>\<open>Camera(glm::vec3(0, 0, 0), glm::vec3(1, 0, 0))\<close> constructs: world-up along the
  first axis, default yaw and pitch.
\<close>

definition side_camera :: Camera where
  "side_camera =
     \<lparr>Position = vec3 0 0 0, Front = vec3 0 0 (- 1), Up = vec3 1 0 0, Right = vec3 0 (- 1) 0,
      WorldUp = vec3 1 0 0, Yaw = - 90, Pitch = 0,
      MovementSpeed = 2.5, MouseSensitivity = 0.1, Zoom = 45\<rparr>"


text \<open>Example inputs of the shader: two constant textures and two fragments.\<close>

definition grey :: sampler_rgb where
  "grey uv = vec3 (1 / 2) (1 / 2) (1 / 2)"

definition flat_normal :: sampler_rgb where
  "flat_normal uv = vec3 (1 / 2) (1 / 2) 1"

definition oblique_fragment :: VS_OUT where
  "oblique_fragment =
     \<lparr>FragPos = vec3 0 0 0, TexCoords = vec2 (1 / 2) (1 / 2),
      TangentLightPos = vec3 0 0 1, TangentViewPos = vec3 3 0 4, TangentFragPos = vec3 0 0 0\<rparr>"

definition facing_fragment :: VS_OUT where
  "facing_fragment =
     \<lparr>FragPos = vec3 0 0 0, TexCoords = vec2 (1 / 2) (1 / 2),
      TangentLightPos = vec3 0 0 1, TangentViewPos = vec3 0 0 2, TangentFragPos = vec3 0 0 0\<rparr>"

section \<open>Binary32 arithmetic\<close>

text \<open>
  The second embedding of the shader computes in IEEE 754 binary32, the format of a GLSL
  \<^verbatim>\<open>float\<close>. A finite binary32 number is a real \<open>m * 2 ^ q\<close> with an integer \<open>m\<close>,
  \<open>\<bar>m\<bar> < 2 ^ 24\<close>, and \<open>- 149 \<le> q \<le> 104\<close>. An operation computes the exact real result and
  rounds it to the nearest such number, a tie going to the even \<open>m\<close>; a rounded result
  beyond the largest finite number, \<open>max32\<close>, is an infinity.
\<close>

text \<open>
  \<open>pow2 e\<close> is \<open>2\<close> to the integer power \<open>e\<close>.
\<close>

definition pow2 :: "int \<Rightarrow> real" where
  "pow2 e = (if 0 \<le> e then 2 ^ nat e else 1 / 2 ^ nat (- e))"

text \<open>
  Rounding a real to the nearest integer, a tie to the even one.
\<close>

definition round_even :: "real \<Rightarrow> int" where
  "round_even y =
     (let f = \<lfloor>y\<rfloor>; r = y - of_int f
      in if r < 1 / 2 then f else if 1 / 2 < r then f + 1 else if even f then f else f + 1)"

text \<open>
  The exponent of the last place of \<open>x\<close>: 23 below the exponent of \<open>x\<close> itself, and -149 for
  the subnormal numbers.
\<close>

definition quantum32 :: "real \<Rightarrow> int" where
  "quantum32 x = max (\<lfloor>log 2 \<bar>x\<bar>\<rfloor> - 23) (- 149)"

definition round32 :: "real \<Rightarrow> real" where
  "round32 x =
     (if x = 0 then 0
      else of_int (round_even (x / pow2 (quantum32 x))) * pow2 (quantum32 x))"

definition max32 :: real where
  "max32 = (2 ^ 24 - 1) * 2 ^ 104"

text \<open>
  A binary32 value. Zero has no sign here: where the source divides a non-zero number by a
  zero, the infinity takes the sign of the dividend.
\<close>

datatype fp = Fin real | PInf | NInf | NaN

definition fl :: "real \<Rightarrow> fp" where
  "fl x = (let r = round32 x
           in if max32 < r then PInf else if r < - max32 then NInf else Fin r)"

fun fneg :: "fp \<Rightarrow> fp" where
  "fneg (Fin a) = Fin (- a)"
| "fneg PInf = NInf"
| "fneg NInf = PInf"
| "fneg NaN = NaN"

fun fadd :: "fp \<Rightarrow> fp \<Rightarrow> fp" where
  "fadd (Fin a) (Fin b) = fl (a + b)"
| "fadd NaN y = NaN"
| "fadd x NaN = NaN"
| "fadd PInf NInf = NaN"
| "fadd NInf PInf = NaN"
| "fadd PInf y = PInf"
| "fadd x PInf = PInf"
| "fadd NInf y = NInf"
| "fadd x NInf = NInf"

definition fsub :: "fp \<Rightarrow> fp \<Rightarrow> fp" where
  "fsub x y = fadd x (fneg y)"

fun fmul :: "fp \<Rightarrow> fp \<Rightarrow> fp" where
  "fmul (Fin a) (Fin b) = fl (a * b)"
| "fmul NaN y = NaN"
| "fmul x NaN = NaN"
| "fmul (Fin a) y = (if a = 0 then NaN else if 0 < a then y else fneg y)"
| "fmul x (Fin b) = (if b = 0 then NaN else if 0 < b then x else fneg x)"
| "fmul PInf y = y"
| "fmul NInf y = fneg y"

fun fdiv :: "fp \<Rightarrow> fp \<Rightarrow> fp" where
  "fdiv (Fin a) (Fin b) =
     (if b = 0 then (if a = 0 then NaN else if 0 < a then PInf else NInf) else fl (a / b))"
| "fdiv NaN y = NaN"
| "fdiv x NaN = NaN"
| "fdiv (Fin a) y = Fin 0"
| "fdiv x (Fin b) = (if 0 \<le> b then x else fneg x)"
| "fdiv x y = NaN"

text \<open>
  The comparison \<^verbatim>\<open><\<close>: false whenever one side is NaN.
\<close>

fun fless :: "fp \<Rightarrow> fp \<Rightarrow> bool" where
  "fless (Fin a) (Fin b) \<longleftrightarrow> a < b"
| "fless NaN y \<longleftrightarrow> False"
| "fless x NaN \<longleftrightarrow> False"
| "fless x NInf \<longleftrightarrow> False"
| "fless PInf y \<longleftrightarrow> False"
| "fless NInf y \<longleftrightarrow> True"
| "fless x PInf \<longleftrightarrow> True"

text \<open>
  \<open>representable32 x\<close>: the real \<open>x\<close> is a finite binary32 number. \<open>finite32\<close>: the value is
  neither an infinity nor NaN. \<open>eta32\<close> is half the distance between two subnormal numbers.
\<close>

definition representable32 :: "real \<Rightarrow> bool" where
  "representable32 x \<longleftrightarrow> round32 x = x \<and> \<bar>x\<bar> \<le> max32"



subsection \<open>\<^verbatim>\<open>ParallaxMapping\<close> in binary32\<close>

text \<open>
  The same function, line by line, every operation rounded as it is executed: the two
  products and the sum of line 52 are three operations. No division fails, it yields an
  infinity or NaN, so the only result that is not a coordinate is a loop that never exits.
  A coordinate can be an infinity or NaN, and the depth map is a function of such
  coordinates; a sample is a finite number (\<^verbatim>\<open>main.cpp\<close> uploads the maps as
  \<^verbatim>\<open>GL_UNSIGNED_BYTE\<close>).
\<close>

datatype fvec2 = fvec2 (fvec2_x: fp) (fvec2_y: fp)

datatype fvec3 = fvec3 (fvec3_x: fp) (fvec3_y: fp) (fvec3_z: fp)

type_synonym sampler32 = "fvec2 \<Rightarrow> real"

definition constant_field32 :: "real \<Rightarrow> sampler32" where
  "constant_field32 h uv = h"

record locals32 =
  layerDepth32 :: fp
  currentLayerDepth32 :: fp
  deltaTexCoords32 :: fvec2
  currentTexCoords32 :: fvec2
  currentDepthMapValue32 :: real
  iterations32 :: nat

text \<open>
  Lines 21 to 31.
\<close>

definition ParallaxMapping_prologue32 ::
  "sampler32 \<Rightarrow> fp \<Rightarrow> fvec2 \<Rightarrow> fvec3 \<Rightarrow> locals32" where
  "ParallaxMapping_prologue32 depthMap heightScale texCoords viewDir =
     (let numLayers = Fin 10;
          P = fvec2 (fmul (fdiv (fvec3_x viewDir) (fvec3_z viewDir)) heightScale)
                    (fmul (fdiv (fvec3_y viewDir) (fvec3_z viewDir)) heightScale)
      in \<lparr>layerDepth32 = fdiv (Fin 1) numLayers,
          currentLayerDepth32 = Fin 0,
          deltaTexCoords32 = fvec2 (fdiv (fvec2_x P) numLayers) (fdiv (fvec2_y P) numLayers),
          currentTexCoords32 = texCoords,
          currentDepthMapValue32 = depthMap texCoords,
          iterations32 = 0\<rparr>)"

text \<open>
  Lines 35 to 40, and the loop of lines 33 to 41.
\<close>

definition loop_body32 :: "sampler32 \<Rightarrow> locals32 \<Rightarrow> locals32" where
  "loop_body32 depthMap s =
     (let tc = fvec2 (fsub (fvec2_x (currentTexCoords32 s)) (fvec2_x (deltaTexCoords32 s)))
                     (fsub (fvec2_y (currentTexCoords32 s)) (fvec2_y (deltaTexCoords32 s)))
      in s\<lparr>currentTexCoords32 := tc,
            currentDepthMapValue32 := depthMap tc,
            currentLayerDepth32 := fadd (currentLayerDepth32 s) (layerDepth32 s),
            iterations32 := Suc (iterations32 s)\<rparr>)"

partial_function (option) march32 :: "sampler32 \<Rightarrow> locals32 \<Rightarrow> locals32 option" where
  "march32 depthMap s =
     (if fless (currentLayerDepth32 s) (Fin (currentDepthMapValue32 s))
      then march32 depthMap (loop_body32 depthMap s)
      else Some s)"

text \<open>
  Lines 43 to 54.
\<close>

definition ParallaxMapping_epilogue32 :: "sampler32 \<Rightarrow> locals32 \<Rightarrow> fvec2" where
  "ParallaxMapping_epilogue32 depthMap s =
     (let cur = currentTexCoords32 s;
          prevTexCoords = fvec2 (fadd (fvec2_x cur) (fvec2_x (deltaTexCoords32 s)))
                                (fadd (fvec2_y cur) (fvec2_y (deltaTexCoords32 s)));
          afterDepth = fsub (Fin (currentDepthMapValue32 s)) (currentLayerDepth32 s);
          beforeDepth = fadd (fsub (Fin (depthMap prevTexCoords)) (currentLayerDepth32 s))
                             (layerDepth32 s);
          weight = fdiv afterDepth (fsub afterDepth beforeDepth)
      in fvec2 (fadd (fmul (fvec2_x prevTexCoords) weight)
                     (fmul (fvec2_x cur) (fsub (Fin 1) weight)))
               (fadd (fmul (fvec2_y prevTexCoords) weight)
                     (fmul (fvec2_y cur) (fsub (Fin 1) weight))))"

definition ParallaxMapping_loop32 ::
  "sampler32 \<Rightarrow> fp \<Rightarrow> fvec2 \<Rightarrow> fvec3 \<Rightarrow> locals32 option" where
  "ParallaxMapping_loop32 depthMap heightScale texCoords viewDir =
     march32 depthMap (ParallaxMapping_prologue32 depthMap heightScale texCoords viewDir)"

definition ParallaxMapping32 ::
  "sampler32 \<Rightarrow> fp \<Rightarrow> fvec2 \<Rightarrow> fvec3 \<Rightarrow> fvec2 option" where
  "ParallaxMapping32 depthMap heightScale texCoords viewDir =
     map_option (ParallaxMapping_epilogue32 depthMap)
       (ParallaxMapping_loop32 depthMap heightScale texCoords viewDir)"

definition ParallaxMapping_iterations32 ::
  "sampler32 \<Rightarrow> fp \<Rightarrow> fvec2 \<Rightarrow> fvec3 \<Rightarrow> nat option" where
  "ParallaxMapping_iterations32 depthMap heightScale texCoords viewDir =
     map_option iterations32 (ParallaxMapping_loop32 depthMap heightScale texCoords viewDir)"

text \<open>
  The values of \<^verbatim>\<open>currentLayerDepth\<close> after 0, 1, ..., 10 executions of
  \<^verbatim>\<open>currentLayerDepth += layerDepth\<close> in binary32, \<^verbatim>\<open>layerDepth\<close> being \<open>13421773 / 2 ^ 27\<close>, the
  binary32 number nearest to 1/10 (lemmas \<open>tenth32\<close> and \<open>layer_depths32_step\<close>). Apart
  from the first, 0, and the sixth, 1/2, each lies above the exact \<open>k / 10\<close>.
  \<open>layers_below32 h\<close> counts the leading ones that are below \<open>h\<close>.
\<close>

definition layer_depths32 :: "real list" where
  "layer_depths32 =
     [0, 13421773 / 134217728, 13421773 / 67108864, 5033165 / 16777216, 13421773 / 33554432,
      1 / 2, 5033165 / 8388608, 2936013 / 4194304, 6710887 / 8388608, 1887437 / 2097152,
      8388609 / 8388608]"

definition layers_below32 :: "real \<Rightarrow> nat" where
  "layers_below32 h = length (takeWhile (\<lambda>s. s < h) layer_depths32)"

section \<open>The loop of \<^verbatim>\<open>ParallaxMapping\<close> in exact arithmetic\<close>

lemma march_exit: "\<not> currentLayerDepth s < currentDepthMapValue s \<Longrightarrow> march depthMap s = Some s"
  by (subst march.simps) simp

lemma march_iter: "currentLayerDepth s < currentDepthMapValue s \<Longrightarrow>
    march depthMap s = march depthMap (loop_body depthMap s)"
  by (subst march.simps) simp

lemma march_bounded:
  assumes "\<And>uv. depthMap uv \<le> 1"
    and "layerDepth s = 1 / 10"
    and "currentLayerDepth s = real (iterations s) / 10"
    and "iterations s \<le> 10"
    and "currentDepthMapValue s \<le> 1"
  shows "\<exists>s'. march depthMap s = Some s' \<and> iterations s' \<le> 10"
  using assms(2-)
proof (induction "10 - iterations s" arbitrary: s rule: less_induct)
  case less
  show ?case
  proof (cases "currentLayerDepth s < currentDepthMapValue s")
    case False
    then show ?thesis using less.prems by (simp add: march_exit)
  next
    case True
    with less.prems have lt: "iterations s < 10" by simp
    let ?t = "loop_body depthMap s"
    have "\<exists>s'. march depthMap ?t = Some s' \<and> iterations s' \<le> 10"
    proof (rule less.hyps)
      show "10 - iterations ?t < 10 - iterations s"
        using lt by (simp add: loop_body_def Let_def)
      show "layerDepth ?t = 1 / 10"
        using less.prems by (simp add: loop_body_def Let_def)
      show "currentLayerDepth ?t = real (iterations ?t) / 10"
        using less.prems by (simp add: loop_body_def Let_def add_divide_distrib)
      show "iterations ?t \<le> 10"
        using lt by (simp add: loop_body_def Let_def)
      show "currentDepthMapValue ?t \<le> 1"
        using assms(1) by (simp add: loop_body_def Let_def)
    qed
    then show ?thesis using True by (simp add: march_iter)
  qed
qed

lemma march_constant:
  assumes Q: "\<And>tc. Q tc \<Longrightarrow> Q (vec2_sub tc delta) \<and> depthMap (vec2_sub tc delta) = h"
    and "deltaTexCoords s = delta"
    and "Q (currentTexCoords s)"
    and "layerDepth s = 1 / 10"
    and "currentLayerDepth s = real (iterations s) / 10"
    and "currentDepthMapValue s = h"
    and "iterations s \<le> nat \<lceil>h * 10\<rceil>"
  shows "\<exists>s'. march depthMap s = Some s' \<and> iterations s' = nat \<lceil>h * 10\<rceil>
           \<and> currentLayerDepth s' = real (iterations s') / 10
           \<and> currentDepthMapValue s' = h \<and> Q (currentTexCoords s')
           \<and> deltaTexCoords s' = delta \<and> layerDepth s' = 1 / 10"
  using assms(2-)
proof (induction "nat \<lceil>h * 10\<rceil> - iterations s" arbitrary: s rule: less_induct)
  case less
  show ?case
  proof (cases "currentLayerDepth s < currentDepthMapValue s")
    case False
    with less.prems(4,5) have "\<not> real (iterations s) / 10 < h" by simp
    then have "h * 10 \<le> real (iterations s)" by linarith
    then have "nat \<lceil>h * 10\<rceil> \<le> iterations s" by simp
    with less.prems have "iterations s = nat \<lceil>h * 10\<rceil>" by simp
    then show ?thesis using False less.prems by (simp add: march_exit)
  next
    case True
    with less.prems(4,5) have "real (iterations s) / 10 < h" by simp
    then have "real (iterations s) < h * 10" by linarith
    then have lt: "iterations s < nat \<lceil>h * 10\<rceil>" by linarith
    let ?t = "loop_body depthMap s"
    have "\<exists>s'. march depthMap ?t = Some s' \<and> iterations s' = nat \<lceil>h * 10\<rceil>
           \<and> currentLayerDepth s' = real (iterations s') / 10
           \<and> currentDepthMapValue s' = h \<and> Q (currentTexCoords s')
           \<and> deltaTexCoords s' = delta \<and> layerDepth s' = 1 / 10"
    proof (rule less.hyps)
      show "nat \<lceil>h * 10\<rceil> - iterations ?t < nat \<lceil>h * 10\<rceil> - iterations s"
        using lt by (simp add: loop_body_def Let_def)
      show "deltaTexCoords ?t = delta"
        using less.prems by (simp add: loop_body_def Let_def)
      show "Q (currentTexCoords ?t)"
        using less.prems Q by (simp add: loop_body_def Let_def)
      show "layerDepth ?t = 1 / 10"
        using less.prems by (simp add: loop_body_def Let_def)
      show "currentLayerDepth ?t = real (iterations ?t) / 10"
        using less.prems by (simp add: loop_body_def Let_def add_divide_distrib)
      show "currentDepthMapValue ?t = h"
        using less.prems Q by (simp add: loop_body_def Let_def)
      show "iterations ?t \<le> nat \<lceil>h * 10\<rceil>"
        using lt by (simp add: loop_body_def Let_def)
    qed
    then show ?thesis using True by (simp add: march_iter)
  qed
qed



lemma loop_entry_simps:
  "layerDepth (loop_entry depthMap delta texCoords) = 1 / 10"
  "currentLayerDepth (loop_entry depthMap delta texCoords) = 0"
  "deltaTexCoords (loop_entry depthMap delta texCoords) = delta"
  "currentTexCoords (loop_entry depthMap delta texCoords) = texCoords"
  "currentDepthMapValue (loop_entry depthMap delta texCoords) = depthMap texCoords"
  "iterations (loop_entry depthMap delta texCoords) = 0"
  by (simp_all add: loop_entry_def numLayers_def)

lemma prologue_Inr:
  "vec3_z viewDir \<noteq> 0 \<Longrightarrow>
   ParallaxMapping_prologue depthMap heightScale texCoords viewDir =
     Inr (loop_entry depthMap
            (vec2_div (vec2_scale (vec2_div (vec3_xy viewDir) (vec3_z viewDir)) heightScale) numLayers)
            texCoords)"
  by (simp add: ParallaxMapping_prologue_def)

text \<open>
  In exact arithmetic, on a height field that is \<open>h\<close> everywhere, with \<open>0 \<le> h \<le> 1\<close>, the loop
  exits after exactly \<open>\<lceil>h * numLayers\<rceil>\<close> executions of the body.
\<close>

lemma constant_field_iterations_exact:
  assumes "0 \<le> h" and "h \<le> 1" and "0 < vec3_z viewDir"
  shows "ParallaxMapping_iterations (constant_field h) heightScale texCoords viewDir =
           Some (Inr (nat \<lceil>h * numLayers\<rceil>))"
proof -
  let ?delta = "vec2_div (vec2_scale (vec2_div (vec3_xy viewDir) (vec3_z viewDir)) heightScale) numLayers"
  let ?s = "loop_entry (constant_field h) ?delta texCoords"
  have "\<exists>s'. march (constant_field h) ?s = Some s' \<and> iterations s' = nat \<lceil>h * 10\<rceil>
           \<and> currentLayerDepth s' = real (iterations s') / 10
           \<and> currentDepthMapValue s' = h \<and> True
           \<and> deltaTexCoords s' = ?delta \<and> layerDepth s' = 1 / 10"
    by (rule march_constant [where Q = "\<lambda>tc. True"])
       (simp_all add: loop_entry_simps constant_field_def)
  then obtain s' where "march (constant_field h) ?s = Some s'"
    and "iterations s' = nat \<lceil>h * 10\<rceil>" by blast
  moreover from assms(3) have "vec3_z viewDir \<noteq> 0" by simp
  ultimately show ?thesis
    by (simp add: ParallaxMapping_iterations_def ParallaxMapping_loop_def prologue_Inr
        numLayers_def)
qed

text \<open>The two ends, \<open>h = 0\<close> with no iteration and \<open>h = 1\<close> with ten, and a value between.\<close>

lemma constant_field_iterations_exact_examples:
  "ParallaxMapping_iterations (constant_field 0) (1 / 10) (vec2 (1 / 2) (1 / 2)) (vec3 0 0 1) =
     Some (Inr 0) \<and>
   ParallaxMapping_iterations (constant_field 1) (1 / 10) (vec2 (1 / 2) (1 / 2)) (vec3 0 0 1) =
     Some (Inr 10) \<and>
   ParallaxMapping_iterations (constant_field (31 / 100)) (1 / 10) (vec2 (1 / 2) (1 / 2)) (vec3 0 0 1) =
     Some (Inr 4)"
  using constant_field_iterations_exact [of 0 "vec3 0 0 1" "1 / 10" "vec2 (1 / 2) (1 / 2)"]
    constant_field_iterations_exact [of 1 "vec3 0 0 1" "1 / 10" "vec2 (1 / 2) (1 / 2)"]
    constant_field_iterations_exact [of "31 / 100" "vec3 0 0 1" "1 / 10" "vec2 (1 / 2) (1 / 2)"]
  by (simp add: numLayers_def)

text \<open>
  C3. On a height field whose samples all lie in \<open>[0, 1]\<close> the loop exits, from its entry
  state for any coordinate and any per-layer shift, after at most ten executions of the
  body; so \<^verbatim>\<open>ParallaxMapping\<close> returns for every input.
\<close>

theorem loop_at_most_numLayers:
  assumes "\<forall>uv. 0 \<le> depthMap uv \<and> depthMap uv \<le> 1"
  shows "(\<exists>s'. march depthMap (loop_entry depthMap delta texCoords) = Some s' \<and> iterations s' \<le> 10)
       \<and> ParallaxMapping depthMap heightScale texCoords viewDir \<noteq> None"
proof -
  have le: "\<And>uv. depthMap uv \<le> 1" using assms by simp
  have ex: "\<exists>s'. march depthMap (loop_entry depthMap d texCoords) = Some s' \<and> iterations s' \<le> 10" for d
    by (rule march_bounded [OF le]) (simp_all add: loop_entry_simps le)
  have "ParallaxMapping depthMap heightScale texCoords viewDir \<noteq> None"
  proof (cases "vec3_z viewDir = 0")
    case True
    then show ?thesis
      by (simp add: ParallaxMapping_def ParallaxMapping_loop_def ParallaxMapping_prologue_def)
  next
    case False
    let ?d = "vec2_div (vec2_scale (vec2_div (vec3_xy viewDir) (vec3_z viewDir)) heightScale) numLayers"
    from ex [of ?d] obtain s' where "march depthMap (loop_entry depthMap ?d texCoords) = Some s'"
      by blast
    with False show ?thesis
      by (simp add: ParallaxMapping_def ParallaxMapping_loop_def prologue_Inr)
  qed
  with ex show ?thesis by blast
qed

text \<open>The step field has all its samples in \<open>[0, 1]\<close>.\<close>

theorem loop_at_most_numLayers_witness:
  "(\<forall>uv. 0 \<le> step_field uv \<and> step_field uv \<le> 1) \<and>
   (\<exists>s'. march step_field (loop_entry step_field (vec2 (1 / 10) 0) (vec2 (1 / 4) (1 / 2))) = Some s'
         \<and> iterations s' \<le> 10) \<and>
   ParallaxMapping step_field 1 (vec2 (1 / 4) (1 / 2)) (vec3 1 0 1) \<noteq> None"
proof -
  have h: "\<forall>uv. 0 \<le> step_field uv \<and> step_field uv \<le> 1"
    by (simp add: step_field_def)
  show ?thesis
    using h loop_at_most_numLayers [OF h, of "vec2 (1 / 10) 0" "vec2 (1 / 4) (1 / 2)" 1 "vec3 1 0 1"]
    by simp
qed

text \<open>On the step field the loop stops at the third layer, where the depth drops to 1/4.\<close>

lemma step_field_run:
  "ParallaxMapping_iterations step_field 1 (vec2 (1 / 4) (1 / 2)) (vec3 (-1) 0 1) = Some (Inr 3)"
  by (simp add: ParallaxMapping_iterations_def ParallaxMapping_loop_def ParallaxMapping_prologue_def
      loop_entry_def numLayers_def march.simps loop_body_def step_field_def vec2_sub_def vec2_div_def
      vec2_scale_def vec3_xy_def Let_def)

text \<open>
  C5. Nothing guards \<^verbatim>\<open>viewDir.z\<close>: the division that computes \<open>P\<close> fails exactly when
  \<^verbatim>\<open>viewDir.z\<close> is 0, and then \<^verbatim>\<open>ParallaxMapping\<close> as a whole fails with it, whatever the
  other inputs are.
\<close>

theorem division_by_viewDir_z:
  "(ParallaxMapping_prologue depthMap heightScale texCoords viewDir = Inl DivisionByZero)
     = (vec3_z viewDir = 0)
   \<and> ParallaxMapping depthMap heightScale texCoords (vec3 vx vy 0) = Some (Inl DivisionByZero)"
  by (simp add: ParallaxMapping_def ParallaxMapping_loop_def ParallaxMapping_prologue_def Let_def)


text \<open>
  In exact arithmetic, with \<open>heightScale = 0\<close> and \<open>viewDir.z \<noteq> 0\<close>, for every height field and
  every \<open>texCoords\<close>: \<^verbatim>\<open>deltaTexCoords\<close> is the zero vector, the loop exits, and
  \<^verbatim>\<open>ParallaxMapping\<close> returns \<open>texCoords\<close> itself.
\<close>

lemma zero_heightScale_exact:
  assumes "vec3_z viewDir \<noteq> 0"
  shows "map_sum id deltaTexCoords (ParallaxMapping_prologue depthMap 0 texCoords viewDir)
           = Inr (vec2 0 0)
       \<and> ParallaxMapping depthMap 0 texCoords viewDir = Some (Inr texCoords)"
proof -
  let ?s = "loop_entry depthMap (vec2 0 0) texCoords"
  let ?h = "depthMap texCoords"
  have pro: "ParallaxMapping_prologue depthMap 0 texCoords viewDir = Inr ?s"
    using assms by (simp add: prologue_Inr vec2_scale_def vec2_div_def)
  have "\<exists>s'. march depthMap ?s = Some s' \<and> iterations s' = nat \<lceil>?h * 10\<rceil>
           \<and> currentLayerDepth s' = real (iterations s') / 10
           \<and> currentDepthMapValue s' = ?h \<and> currentTexCoords s' = texCoords
           \<and> deltaTexCoords s' = vec2 0 0 \<and> layerDepth s' = 1 / 10"
    by (rule march_constant [where Q = "\<lambda>tc. tc = texCoords"])
       (simp_all add: loop_entry_simps vec2_sub_def)
  then obtain s' where m: "march depthMap ?s = Some s'"
    and s': "currentDepthMapValue s' = ?h" "currentTexCoords s' = texCoords"
      "deltaTexCoords s' = vec2 0 0" "layerDepth s' = 1 / 10"
    by blast
  have "ParallaxMapping_epilogue depthMap s' = Inr texCoords"
    using s' by (simp add: ParallaxMapping_epilogue_def Let_def vec2_add_def vec2_scale_def
        algebra_simps)
  with pro m show ?thesis
    by (simp add: ParallaxMapping_def ParallaxMapping_loop_def loop_entry_simps)
qed

text \<open>An instance on the step field.\<close>

lemma zero_heightScale_exact_example:
  "vec3_z (vec3 (3 / 5) 0 (4 / 5)) \<noteq> 0 \<and>
   map_sum id deltaTexCoords
     (ParallaxMapping_prologue step_field 0 (vec2 (1 / 4) (1 / 2)) (vec3 (3 / 5) 0 (4 / 5)))
     = Inr (vec2 0 0) \<and>
   ParallaxMapping step_field 0 (vec2 (1 / 4) (1 / 2)) (vec3 (3 / 5) 0 (4 / 5))
     = Some (Inr (vec2 (1 / 4) (1 / 2)))"
  using zero_heightScale_exact [of "vec3 (3 / 5) 0 (4 / 5)" step_field "vec2 (1 / 4) (1 / 2)"]
  by simp

section \<open>The discard test of \<^verbatim>\<open>main\<close>\<close>

lemma shade_not_Discarded:
  "shade diffuseMap normalMap fs_in viewDir texCoords \<noteq> Inr Discarded"
  unfolding shade_def Let_def by (simp split: sum.split)

lemma shade_lookups:
  assumes "diffuseMap' texCoords = diffuseMap texCoords"
    and "normalMap' texCoords = normalMap texCoords"
  shows "shade diffuseMap' normalMap' fs_in viewDir texCoords =
   shade diffuseMap normalMap fs_in viewDir texCoords"
  unfolding shade_def assms by (rule refl)

text \<open>
  C4. When \<^verbatim>\<open>ParallaxMapping\<close> returns a coordinate, \<^verbatim>\<open>main\<close> discards the fragment if and
  only if that coordinate has a component below 0 or above 1. A coordinate inside
  \<open>[0, 1] \<times> [0, 1]\<close> is never discarded: the fragment is shaded at that coordinate, and
  the diffuse and normal maps are read there and nowhere else (changing them at any other
  coordinate changes nothing).
\<close>

theorem discard_iff_out_of_range:
  assumes "vec3_normalize (vec3_sub (TangentViewPos fs_in) (TangentFragPos fs_in)) = Inr viewDir"
    and "ParallaxMapping depthMap heightScale (TexCoords fs_in) viewDir = Some (Inr texCoords)"
  shows "((main diffuseMap normalMap depthMap heightScale fs_in = Some (Inr Discarded))
            = (vec2_x texCoords < 0 \<or> vec2_x texCoords > 1 \<or>
               vec2_y texCoords < 0 \<or> vec2_y texCoords > 1))
       \<and> (0 \<le> vec2_x texCoords \<and> vec2_x texCoords \<le> 1 \<and>
          0 \<le> vec2_y texCoords \<and> vec2_y texCoords \<le> 1 \<longrightarrow>
            main diffuseMap normalMap depthMap heightScale fs_in =
              Some (shade diffuseMap normalMap fs_in viewDir texCoords)
          \<and> (\<forall>diffuseMap' normalMap'.
                diffuseMap' texCoords = diffuseMap texCoords \<and>
                normalMap' texCoords = normalMap texCoords \<longrightarrow>
                main diffuseMap' normalMap' depthMap heightScale fs_in =
                  main diffuseMap normalMap depthMap heightScale fs_in))"
proof -
  have m: "main d n depthMap heightScale fs_in =
      (if out_of_range texCoords then Some (Inr Discarded)
       else Some (shade d n fs_in viewDir texCoords))" for d n
    using assms by (simp add: main_def)
  have o: "out_of_range texCoords = (vec2_x texCoords < 0 \<or> vec2_x texCoords > 1 \<or>
               vec2_y texCoords < 0 \<or> vec2_y texCoords > 1)"
    by (auto simp add: out_of_range_def)
  have 1: "(main diffuseMap normalMap depthMap heightScale fs_in = Some (Inr Discarded))
            = (vec2_x texCoords < 0 \<or> vec2_x texCoords > 1 \<or>
               vec2_y texCoords < 0 \<or> vec2_y texCoords > 1)"
    unfolding m o [symmetric] by (simp add: shade_not_Discarded)
  have 2: "main d n depthMap heightScale fs_in = Some (shade d n fs_in viewDir texCoords)"
    if "0 \<le> vec2_x texCoords \<and> vec2_x texCoords \<le> 1 \<and>
          0 \<le> vec2_y texCoords \<and> vec2_y texCoords \<le> 1" for d n
    using that unfolding m o by auto
  have 3: "main d' n' depthMap heightScale fs_in = main diffuseMap normalMap depthMap heightScale fs_in"
    if "0 \<le> vec2_x texCoords \<and> vec2_x texCoords \<le> 1 \<and>
          0 \<le> vec2_y texCoords \<and> vec2_y texCoords \<le> 1"
      and "d' texCoords = diffuseMap texCoords \<and> n' texCoords = normalMap texCoords" for d' n'
    using that shade_lookups [of d' texCoords diffuseMap n' normalMap fs_in viewDir]
    by (simp add: 2)
  from 1 2 3 show ?thesis by blast
qed

lemma oblique_viewDir:
  "vec3_normalize (vec3_sub (TangentViewPos oblique_fragment) (TangentFragPos oblique_fragment))
     = Inr (vec3 (3 / 5) 0 (4 / 5))"
  by (simp add: vec3_normalize_def oblique_fragment_def vec3_sub_def dot_def vec3_scale_def)

lemma oblique_ParallaxMapping:
  "ParallaxMapping (constant_field 1) 1 (TexCoords oblique_fragment) (vec3 (3 / 5) 0 (4 / 5))
     = Some (Inr (vec2 (- 1 / 4) (1 / 2)))"
  by (simp add: ParallaxMapping_def ParallaxMapping_loop_def ParallaxMapping_prologue_def
      ParallaxMapping_epilogue_def loop_entry_def numLayers_def march.simps loop_body_def
      constant_field_def oblique_fragment_def vec2_sub_def vec2_add_def vec2_div_def
      vec2_scale_def vec3_xy_def Let_def)

text \<open>
  A height field of depth 1 seen at an angle: the marched coordinate leaves the unit
  square on the left and the fragment is discarded.
\<close>

theorem discard_iff_out_of_range_witness:
  "main grey flat_normal (constant_field 1) 1 oblique_fragment = Some (Inr Discarded)"
  using discard_iff_out_of_range [OF oblique_viewDir oblique_ParallaxMapping, of grey flat_normal]
  by simp

text \<open>A fragment seen from straight above on a field of depth 0 is shaded.\<close>

lemma facing_viewDir:
  "vec3_normalize (vec3_sub (TangentViewPos facing_fragment) (TangentFragPos facing_fragment))
     = Inr (vec3 0 0 1)"
  by (simp add: vec3_normalize_def facing_fragment_def vec3_sub_def dot_def vec3_scale_def)

lemma facing_ParallaxMapping:
  "ParallaxMapping (constant_field 0) 1 (TexCoords facing_fragment) (vec3 0 0 1)
     = Some (Inr (vec2 (1 / 2) (1 / 2)))"
  by (simp add: ParallaxMapping_def ParallaxMapping_loop_def ParallaxMapping_prologue_def
      ParallaxMapping_epilogue_def loop_entry_def numLayers_def march.simps
      constant_field_def facing_fragment_def vec2_add_def vec2_div_def
      vec2_scale_def vec3_xy_def Let_def)

lemma facing_shade:
  "shade grey flat_normal facing_fragment (vec3 0 0 1) (vec2 (1 / 2) (1 / 2))
     = Inr (FragColor (vec4 (3 / 4) (3 / 4) (3 / 4) 1))"
  by (simp add: shade_def grey_def flat_normal_def facing_fragment_def vec3_normalize_def
      vec3_sub_def vec3_add_def vec3_scale_def dot_def Let_def)

lemma main_lit_example:
  "main grey flat_normal (constant_field 0) 1 facing_fragment
     = Some (Inr (FragColor (vec4 (3 / 4) (3 / 4) (3 / 4) 1)))"
  by (simp add: main_def facing_viewDir facing_ParallaxMapping facing_shade out_of_range_def)

section \<open>Rounding to binary32\<close>

text \<open>
  Evaluating \<open>round32\<close> at a number whose exponent is known.
\<close>

lemma pow2_powr: "pow2 e = 2 powr (of_int e)"
proof (cases "0 \<le> e")
  case True
  then have "2 powr (of_int e) = (2::real) powr (real (nat e))" by simp
  also have "\<dots> = 2 ^ nat e" by (simp add: powr_realpow)
  finally show ?thesis using True by (simp add: pow2_def)
next
  case False
  then have "2 powr (of_int e) = (2::real) powr (- real (nat (- e)))" by simp
  also have "\<dots> = 1 / 2 ^ nat (- e)" by (simp add: powr_minus powr_realpow inverse_eq_divide)
  finally show ?thesis using False by (simp add: pow2_def)
qed

lemma pow2_pos: "0 < pow2 e"
  by (simp add: pow2_powr)

lemma quantum32_eval:
  assumes "pow2 e \<le> \<bar>x\<bar>" and "\<bar>x\<bar> < pow2 (e + 1)"
  shows "quantum32 x = max (e - 23) (- 149)"
proof -
  have pos: "0 < \<bar>x\<bar>" using assms(1) pow2_pos [of e] by linarith
  have "\<lfloor>log 2 \<bar>x\<bar>\<rfloor> = e"
    using assms pos by (simp add: floor_log_eq_powr_iff pow2_powr)
  then show ?thesis by (simp add: quantum32_def)
qed

lemma round32_eval:
  assumes "pow2 e \<le> \<bar>x\<bar>" and "\<bar>x\<bar> < pow2 (e + 1)"
  shows "round32 x = of_int (round_even (x / pow2 (max (e - 23) (- 149)))) * pow2 (max (e - 23) (- 149))"
proof -
  have "x \<noteq> 0" using assms(1) pow2_pos [of e] by auto
  then show ?thesis by (simp add: round32_def quantum32_eval [OF assms])
qed

lemma fl_eval:
  assumes "pow2 e \<le> \<bar>x\<bar>" and "\<bar>x\<bar> < pow2 (e + 1)"
    and "of_int (round_even (x / pow2 (max (e - 23) (- 149)))) * pow2 (max (e - 23) (- 149)) = r"
    and "\<bar>r\<bar> \<le> max32"
  shows "fl x = Fin r"
  using assms(3,4) by (auto simp add: fl_def round32_eval [OF assms(1,2)] Let_def)

text \<open>
  \<^verbatim>\<open>layerDepth\<close>, and the ten additions of the loop, rounded.
\<close>

lemma tenth32: "fdiv (Fin 1) (Fin 10) = Fin (13421773 / 134217728)"
  by (simp, rule fl_eval [where e = "- 4"]) (simp_all add: pow2_def round_even_def Let_def max32_def)

lemma sum_step1: "fadd (Fin 0) (Fin (13421773 / 134217728)) = Fin (13421773 / 134217728)"
  by (simp, rule fl_eval [where e = "- 4"]) (simp_all add: pow2_def round_even_def Let_def max32_def)

lemma sum_step2: "fadd (Fin (13421773 / 134217728)) (Fin (13421773 / 134217728)) = Fin (13421773 / 67108864)"
  by (simp, rule fl_eval [where e = "- 3"]) (simp_all add: pow2_def round_even_def Let_def max32_def)

lemma sum_step3: "fadd (Fin (13421773 / 67108864)) (Fin (13421773 / 134217728)) = Fin (5033165 / 16777216)"
  by (simp, rule fl_eval [where e = "- 2"]) (simp_all add: pow2_def round_even_def Let_def max32_def)

lemma sum_step4: "fadd (Fin (5033165 / 16777216)) (Fin (13421773 / 134217728)) = Fin (13421773 / 33554432)"
  by (simp, rule fl_eval [where e = "- 2"]) (simp_all add: pow2_def round_even_def Let_def max32_def)

lemma sum_step5: "fadd (Fin (13421773 / 33554432)) (Fin (13421773 / 134217728)) = Fin (1 / 2)"
  by (simp, rule fl_eval [where e = "- 1"]) (simp_all add: pow2_def round_even_def Let_def max32_def)

lemma sum_step6: "fadd (Fin (1 / 2)) (Fin (13421773 / 134217728)) = Fin (5033165 / 8388608)"
  by (simp, rule fl_eval [where e = "- 1"]) (simp_all add: pow2_def round_even_def Let_def max32_def)

lemma sum_step7: "fadd (Fin (5033165 / 8388608)) (Fin (13421773 / 134217728)) = Fin (2936013 / 4194304)"
  by (simp, rule fl_eval [where e = "- 1"]) (simp_all add: pow2_def round_even_def Let_def max32_def)

lemma sum_step8: "fadd (Fin (2936013 / 4194304)) (Fin (13421773 / 134217728)) = Fin (6710887 / 8388608)"
  by (simp, rule fl_eval [where e = "- 1"]) (simp_all add: pow2_def round_even_def Let_def max32_def)

lemma sum_step9: "fadd (Fin (6710887 / 8388608)) (Fin (13421773 / 134217728)) = Fin (1887437 / 2097152)"
  by (simp, rule fl_eval [where e = "- 1"]) (simp_all add: pow2_def round_even_def Let_def max32_def)

lemma sum_step10: "fadd (Fin (1887437 / 2097152)) (Fin (13421773 / 134217728)) = Fin (8388609 / 8388608)"
  by (simp, rule fl_eval [where e = "0"]) (simp_all add: pow2_def round_even_def Let_def max32_def)









lemma fl_Fin: "\<bar>round32 x\<bar> \<le> max32 \<Longrightarrow> fl x = Fin (round32 x)"
  by (auto simp add: fl_def Let_def)

lemma round32_zero: "round32 0 = 0"
  by (simp add: round32_def)

section \<open>The loop of \<^verbatim>\<open>ParallaxMapping\<close> in binary32\<close>

text \<open>
  The loop runs the body as long as the test holds.
\<close>

lemma march32_funpow:
  assumes "\<forall>j<N. fless (currentLayerDepth32 ((loop_body32 depthMap ^^ j) s))
                   (Fin (currentDepthMapValue32 ((loop_body32 depthMap ^^ j) s)))"
    and "\<not> fless (currentLayerDepth32 ((loop_body32 depthMap ^^ N) s))
                   (Fin (currentDepthMapValue32 ((loop_body32 depthMap ^^ N) s)))"
  shows "march32 depthMap s = Some ((loop_body32 depthMap ^^ N) s)"
  using assms
proof (induction N arbitrary: s)
  case 0
  then show ?case by (subst march32.simps) simp
next
  case (Suc N)
  from Suc.prems(1) have c: "fless (currentLayerDepth32 s) (Fin (currentDepthMapValue32 s))"
    by (metis funpow_0 zero_less_Suc)
  have "march32 depthMap (loop_body32 depthMap s)
          = Some ((loop_body32 depthMap ^^ N) (loop_body32 depthMap s))"
  proof (rule Suc.IH)
    show "\<forall>j<N. fless (currentLayerDepth32 ((loop_body32 depthMap ^^ j) (loop_body32 depthMap s)))
                   (Fin (currentDepthMapValue32 ((loop_body32 depthMap ^^ j) (loop_body32 depthMap s))))"
      using Suc.prems(1) by (metis funpow_Suc_right o_apply Suc_less_eq)
    show "\<not> fless (currentLayerDepth32 ((loop_body32 depthMap ^^ N) (loop_body32 depthMap s)))
                   (Fin (currentDepthMapValue32 ((loop_body32 depthMap ^^ N) (loop_body32 depthMap s))))"
      using Suc.prems(2) by (simp add: funpow_swap1)
  qed
  with c show ?case by (subst march32.simps) (simp add: funpow_swap1)
qed

lemma layer_depths32_nth:
  "layer_depths32 ! 0 = 0"
  "layer_depths32 ! 1 = 13421773 / 134217728"
  "layer_depths32 ! 2 = 13421773 / 67108864"
  "layer_depths32 ! 3 = 5033165 / 16777216"
  "layer_depths32 ! 4 = 13421773 / 33554432"
  "layer_depths32 ! 5 = 1 / 2"
  "layer_depths32 ! 6 = 5033165 / 8388608"
  "layer_depths32 ! 7 = 2936013 / 4194304"
  "layer_depths32 ! 8 = 6710887 / 8388608"
  "layer_depths32 ! 9 = 1887437 / 2097152"
  "layer_depths32 ! 10 = 8388609 / 8388608"
  by (simp_all add: layer_depths32_def)

lemma layer_depths32_nth_Suc:
  "layer_depths32 ! Suc 0 = 13421773 / 134217728"
  "layer_depths32 ! Suc 1 = 13421773 / 67108864"
  "layer_depths32 ! Suc 2 = 5033165 / 16777216"
  "layer_depths32 ! Suc 3 = 13421773 / 33554432"
  "layer_depths32 ! Suc 4 = 1 / 2"
  "layer_depths32 ! Suc 5 = 5033165 / 8388608"
  "layer_depths32 ! Suc 6 = 2936013 / 4194304"
  "layer_depths32 ! Suc 7 = 6710887 / 8388608"
  "layer_depths32 ! Suc 8 = 1887437 / 2097152"
  "layer_depths32 ! Suc 9 = 8388609 / 8388608"
  by (simp_all add: layer_depths32_def)

lemma layer_depths32_step:
  assumes "k < 10"
  shows "fadd (Fin (layer_depths32 ! k)) (Fin (13421773 / 134217728)) = Fin (layer_depths32 ! Suc k)"
proof -
  from assms have "k = 0 \<or> k = 1 \<or> k = 2 \<or> k = 3 \<or> k = 4 \<or> k = 5 \<or> k = 6
    \<or> k = 7 \<or> k = 8 \<or> k = 9" by arith
  then show ?thesis
    by (elim disjE)
       (simp_all only: layer_depths32_nth layer_depths32_nth_Suc
          sum_step1 sum_step2 sum_step3 sum_step4 sum_step5 sum_step6 sum_step7 sum_step8
          sum_step9 sum_step10)
qed

lemma layer_depths32_bounds:
  assumes "k \<le> 10"
  shows "real k \<le> 10 * layer_depths32 ! k" and "10 * layer_depths32 ! k < real k + 1"
proof -
  from assms have "k = 0 \<or> k = 1 \<or> k = 2 \<or> k = 3 \<or> k = 4 \<or> k = 5 \<or> k = 6
    \<or> k = 7 \<or> k = 8 \<or> k = 9 \<or> k = 10" by arith
  then show "real k \<le> 10 * layer_depths32 ! k" and "10 * layer_depths32 ! k < real k + 1"
    by (elim disjE; simp add: layer_depths32_def)+
qed

lemma prologue32_simps:
  "layerDepth32 (ParallaxMapping_prologue32 depthMap heightScale texCoords viewDir)
     = Fin (13421773 / 134217728)"
  "currentLayerDepth32 (ParallaxMapping_prologue32 depthMap heightScale texCoords viewDir) = Fin 0"
  "currentTexCoords32 (ParallaxMapping_prologue32 depthMap heightScale texCoords viewDir) = texCoords"
  "currentDepthMapValue32 (ParallaxMapping_prologue32 depthMap heightScale texCoords viewDir)
     = depthMap texCoords"
  "iterations32 (ParallaxMapping_prologue32 depthMap heightScale texCoords viewDir) = 0"
  by (simp_all add: ParallaxMapping_prologue32_def Let_def tenth32 del: fdiv.simps)

lemma loop_body32_fields:
  "layerDepth32 (loop_body32 depthMap t) = layerDepth32 t"
  "currentLayerDepth32 (loop_body32 depthMap t) = fadd (currentLayerDepth32 t) (layerDepth32 t)"
  "iterations32 (loop_body32 depthMap t) = Suc (iterations32 t)"
  "deltaTexCoords32 (loop_body32 depthMap t) = deltaTexCoords32 t"
  "currentTexCoords32 (loop_body32 depthMap t) =
     fvec2 (fsub (fvec2_x (currentTexCoords32 t)) (fvec2_x (deltaTexCoords32 t)))
           (fsub (fvec2_y (currentTexCoords32 t)) (fvec2_y (deltaTexCoords32 t)))"
  "currentDepthMapValue32 (loop_body32 depthMap t) = depthMap (currentTexCoords32 (loop_body32 depthMap t))"
  by (simp_all add: loop_body32_def Let_def)

lemma run32_invariants:
  assumes "layerDepth32 s = Fin (13421773 / 134217728)"
    and "currentLayerDepth32 s = Fin 0" and "iterations32 s = 0"
    and "k \<le> 10"
  shows "layerDepth32 ((loop_body32 depthMap ^^ k) s) = Fin (13421773 / 134217728)
       \<and> currentLayerDepth32 ((loop_body32 depthMap ^^ k) s) = Fin (layer_depths32 ! k)
       \<and> iterations32 ((loop_body32 depthMap ^^ k) s) = k
       \<and> deltaTexCoords32 ((loop_body32 depthMap ^^ k) s) = deltaTexCoords32 s"
  using assms(4)
proof (induction k)
  case 0
  then show ?case using assms(1-3) by (simp add: layer_depths32_nth)
next
  case (Suc k)
  then have k: "k < 10" by simp
  with Suc.IH have IH: "layerDepth32 ((loop_body32 depthMap ^^ k) s) = Fin (13421773 / 134217728)"
    "currentLayerDepth32 ((loop_body32 depthMap ^^ k) s) = Fin (layer_depths32 ! k)"
    "iterations32 ((loop_body32 depthMap ^^ k) s) = k"
    "deltaTexCoords32 ((loop_body32 depthMap ^^ k) s) = deltaTexCoords32 s"
    by simp_all
  show ?case
    by (simp add: loop_body32_fields(1-4) IH layer_depths32_step [OF k] del: fadd.simps)
qed

lemma run32_constant_sample:
  assumes "currentDepthMapValue32 s = h"
  shows "currentDepthMapValue32 ((loop_body32 (constant_field32 h) ^^ k) s) = h"
  using assms by (cases k) (simp_all add: loop_body32_fields(6) constant_field32_def)

lemma layers_below32_le: "h \<le> 1 \<Longrightarrow> layers_below32 h \<le> 10"
proof -
  assume h: "h \<le> 1"
  have "layers_below32 h \<le> 11"
    unfolding layers_below32_def
    using length_takeWhile_le [of "\<lambda>s. s < h" layer_depths32] by (simp add: layer_depths32_def)
  moreover have "layers_below32 h \<noteq> 11"
  proof
    assume "layers_below32 h = 11"
    then have "length (takeWhile (\<lambda>s. s < h) layer_depths32) = length layer_depths32"
      by (simp add: layers_below32_def layer_depths32_def)
    then have "takeWhile (\<lambda>s. s < h) layer_depths32 = layer_depths32"
      by (metis takeWhile_eq_take take_all order_refl)
    then have "\<forall>x \<in> set layer_depths32. x < h" by (simp add: takeWhile_eq_all_conv)
    then have "8388609 / 8388608 < h" by (simp add: layer_depths32_def)
    with h show False by simp
  qed
  ultimately show ?thesis by simp
qed

lemma layers_below32_before: "j < layers_below32 h \<Longrightarrow> layer_depths32 ! j < h"
  unfolding layers_below32_def
  by (metis nth_mem set_takeWhileD takeWhile_nth)

lemma layers_below32_at: "h \<le> 1 \<Longrightarrow> \<not> layer_depths32 ! layers_below32 h < h"
proof -
  assume "h \<le> 1"
  then have "layers_below32 h < length layer_depths32"
    using layers_below32_le [of h] by (simp add: layer_depths32_def)
  then show ?thesis
    unfolding layers_below32_def by (rule nth_length_takeWhile)
qed

lemma iterations32_constant_field:
  assumes "h \<le> 1"
  shows "ParallaxMapping_loop32 (constant_field32 h) heightScale texCoords viewDir
           = Some ((loop_body32 (constant_field32 h) ^^ layers_below32 h)
                     (ParallaxMapping_prologue32 (constant_field32 h) heightScale texCoords viewDir))"
    and "ParallaxMapping_iterations32 (constant_field32 h) heightScale texCoords viewDir
           = Some (layers_below32 h)"
proof -
  let ?dm = "constant_field32 h"
  let ?s = "ParallaxMapping_prologue32 ?dm heightScale texCoords viewDir"
  let ?N = "layers_below32 h"
  have N: "?N \<le> 10" using assms by (rule layers_below32_le)
  have inv: "currentLayerDepth32 ((loop_body32 ?dm ^^ k) ?s) = Fin (layer_depths32 ! k)
      \<and> iterations32 ((loop_body32 ?dm ^^ k) ?s) = k" if "k \<le> 10" for k
    using run32_invariants [OF prologue32_simps(1,2,5) that, of ?dm ?dm heightScale texCoords viewDir]
    by simp
  have smp: "currentDepthMapValue32 ((loop_body32 ?dm ^^ k) ?s) = h" for k
    by (rule run32_constant_sample) (simp add: prologue32_simps constant_field32_def)
  have run: "march32 ?dm ?s = Some ((loop_body32 ?dm ^^ ?N) ?s)"
  proof (rule march32_funpow)
    show "\<forall>j<?N. fless (currentLayerDepth32 ((loop_body32 ?dm ^^ j) ?s))
                   (Fin (currentDepthMapValue32 ((loop_body32 ?dm ^^ j) ?s)))"
      using N by (simp add: inv smp layers_below32_before)
    show "\<not> fless (currentLayerDepth32 ((loop_body32 ?dm ^^ ?N) ?s))
                   (Fin (currentDepthMapValue32 ((loop_body32 ?dm ^^ ?N) ?s)))"
      using N layers_below32_at [OF assms] by (simp add: inv smp)
  qed
  then show "ParallaxMapping_loop32 ?dm heightScale texCoords viewDir
           = Some ((loop_body32 ?dm ^^ ?N) ?s)"
    by (simp add: ParallaxMapping_loop32_def)
  with N inv [of ?N] show "ParallaxMapping_iterations32 ?dm heightScale texCoords viewDir = Some ?N"
    by (simp add: ParallaxMapping_iterations32_def)
qed

lemma layers_below32_ceiling:
  assumes "h \<le> 1"
  shows "layers_below32 h \<le> nat \<lceil>h * 10\<rceil>" and "nat \<lceil>h * 10\<rceil> \<le> layers_below32 h + 1"
proof -
  let ?N = "layers_below32 h"
  have N: "?N \<le> 10" using assms by (rule layers_below32_le)
  show "?N \<le> nat \<lceil>h * 10\<rceil>"
  proof (cases ?N)
    case 0
    then show ?thesis by simp
  next
    case (Suc j)
    then have "layer_depths32 ! j < h" using layers_below32_before [of j h] by simp
    moreover have "real j \<le> 10 * layer_depths32 ! j"
      using N Suc by (intro layer_depths32_bounds) simp
    ultimately have "real j < h * 10" by linarith
    then have "j < nat \<lceil>h * 10\<rceil>" by linarith
    with Suc show ?thesis by simp
  qed
  have "h \<le> layer_depths32 ! ?N" using layers_below32_at [OF assms] by simp
  moreover have "10 * layer_depths32 ! ?N < real ?N + 1"
    using N by (rule layer_depths32_bounds)
  ultimately have "h * 10 \<le> real (?N + 1)" by simp
  then show "nat \<lceil>h * 10\<rceil> \<le> ?N + 1" by linarith
qed

lemma layers_below32_values:
  "layers_below32 0 = 0" "layers_below32 1 = 10" "layers_below32 (2936013 / 4194304) = 7"
  "layers_below32 (31 / 100) = 4"
  by (simp_all add: layers_below32_def layer_depths32_def)




lemma representable32_fl: "representable32 x \<Longrightarrow> fl x = Fin x"
  by (simp add: representable32_def fl_Fin)

lemma fl_zero: "fl 0 = Fin 0"
  by (simp add: fl_Fin round32_zero max32_def)







text \<open>
  The bound of ten iterations on a height field with samples up to 1 holds in binary32 as
  well: the tenth running sum is above 1.
\<close>

lemma loop32_at_most_numLayers:
  assumes "\<And>uv. depthMap uv \<le> 1"
  shows "\<exists>s'. ParallaxMapping_loop32 depthMap heightScale texCoords viewDir = Some s'
              \<and> iterations32 s' \<le> 10"
proof -
  let ?s = "ParallaxMapping_prologue32 depthMap heightScale texCoords viewDir"
  let ?P = "\<lambda>k. fless (currentLayerDepth32 ((loop_body32 depthMap ^^ k) ?s))
                      (Fin (currentDepthMapValue32 ((loop_body32 depthMap ^^ k) ?s)))"
  note inv = run32_invariants [OF prologue32_simps(1,2,5), where depthMap = depthMap]
  have smp: "currentDepthMapValue32 ((loop_body32 depthMap ^^ k) ?s) \<le> 1" for k
    using assms by (cases k) (simp_all add: prologue32_simps loop_body32_fields(6))
  have "\<not> ?P 10"
    using inv [of 10] smp [of 10] by (simp add: layer_depths32_nth)
  define N where "N = (LEAST k. \<not> ?P k)"
  have N: "\<not> ?P N" unfolding N_def using \<open>\<not> ?P 10\<close> by (rule LeastI)
  have le: "N \<le> 10" unfolding N_def using \<open>\<not> ?P 10\<close> by (rule Least_le)
  have before: "\<forall>j<N. ?P j" unfolding N_def using not_less_Least by blast
  have "march32 depthMap ?s = Some ((loop_body32 depthMap ^^ N) ?s)"
    using before N by (rule march32_funpow)
  moreover have "iterations32 ((loop_body32 depthMap ^^ N) ?s) = N"
    using inv [OF le] by simp
  ultimately show ?thesis using le by (simp add: ParallaxMapping_loop32_def)
qed

text \<open>
  C1, amended. On a height field that is \<open>h\<close> everywhere, with \<open>0 \<le> h \<le> 1\<close>, and for every
  \<open>texCoords\<close>, \<open>heightScale\<close> and \<open>viewDir\<close>, the loop of \<^verbatim>\<open>ParallaxMapping\<close> exits after as
  many iterations as there are binary32 running sums of \<^verbatim>\<open>layerDepth\<close> below \<open>h\<close>; that
  number is \<open>\<lceil>h * numLayers\<rceil>\<close> or one less; it is 0 for \<open>h = 0\<close> and 10 for \<open>h = 1\<close>.
\<close>

theorem constant_field_iterations32:
  assumes "0 \<le> h" and "h \<le> 1"
  shows "ParallaxMapping_iterations32 (constant_field32 h) heightScale texCoords viewDir
           = Some (layers_below32 h)
       \<and> layers_below32 h \<le> nat \<lceil>h * numLayers\<rceil>
       \<and> nat \<lceil>h * numLayers\<rceil> \<le> layers_below32 h + 1
       \<and> layers_below32 0 = 0 \<and> layers_below32 1 = 10"
  using iterations32_constant_field(2) [OF assms(2)] layers_below32_ceiling [OF assms(2)]
    layers_below32_values(1,2)
  by (simp add: numLayers_def)

text \<open>
  The two ends and a value between.
\<close>

theorem constant_field_iterations32_witness:
  "ParallaxMapping_iterations32 (constant_field32 0) (Fin 1) (fvec2 (Fin (1 / 2)) (Fin (1 / 2)))
     (fvec3 (Fin 0) (Fin 0) (Fin 1)) = Some 0
   \<and> ParallaxMapping_iterations32 (constant_field32 1) (Fin 1) (fvec2 (Fin (1 / 2)) (Fin (1 / 2)))
     (fvec3 (Fin 0) (Fin 0) (Fin 1)) = Some 10
   \<and> ParallaxMapping_iterations32 (constant_field32 (31 / 100)) (Fin 1)
     (fvec2 (Fin (1 / 2)) (Fin (1 / 2))) (fvec3 (Fin 0) (Fin 0) (Fin 1)) = Some 4"
  using constant_field_iterations32 [of 0 "Fin 1" "fvec2 (Fin (1 / 2)) (Fin (1 / 2))"
      "fvec3 (Fin 0) (Fin 0) (Fin 1)"]
    constant_field_iterations32 [of 1 "Fin 1" "fvec2 (Fin (1 / 2)) (Fin (1 / 2))"
      "fvec3 (Fin 0) (Fin 0) (Fin 1)"]
    constant_field_iterations32 [of "31 / 100" "Fin 1" "fvec2 (Fin (1 / 2)) (Fin (1 / 2))"
      "fvec3 (Fin 0) (Fin 0) (Fin 1)"]
  by (simp add: layers_below32_values)

text \<open>
  C1 as stated fails in binary32 at \<open>h = 2936013 / 4194304\<close>, about 0.70000005: the seventh
  running sum is exactly \<open>h\<close>, the loop exits after 7 iterations, and \<open>\<lceil>h * numLayers\<rceil>\<close> is 8.
\<close>

theorem constant_field_iterations_counterexample:
  "ParallaxMapping_iterations32 (constant_field32 (2936013 / 4194304)) (Fin 1)
     (fvec2 (Fin (1 / 2)) (Fin (1 / 2))) (fvec3 (Fin 0) (Fin 0) (Fin 1)) = Some 7
   \<and> nat \<lceil>2936013 / 4194304 * numLayers\<rceil> = 8"
  using iterations32_constant_field(2) [of "2936013 / 4194304" "Fin 1"
      "fvec2 (Fin (1 / 2)) (Fin (1 / 2))" "fvec3 (Fin 0) (Fin 0) (Fin 1)"]
  by (simp add: layers_below32_values numLayers_def)

lemma representable32_examples:
  "representable32 (1 / 2)" "representable32 (9646899 / 16777216)"
  unfolding representable32_def
  by (subst round32_eval [where e = "- 1"]; simp add: pow2_def round_even_def Let_def max32_def)+



text \<open>
  The operations of one run, each rounded.
\<close>

lemma trace32:
  "fsub (Fin (1 / 2)) (Fin 0) = Fin (1 / 2)"
  "fsub (Fin (9646899 / 16777216)) (Fin 0) = Fin (9646899 / 16777216)"
  "fadd (Fin (1 / 2)) (Fin 0) = Fin (1 / 2)"
  "fadd (Fin (9646899 / 16777216)) (Fin 0) = Fin (9646899 / 16777216)"
  by (simp_all add: fsub_def representable32_fl representable32_examples)

lemma trace32_a: "fsub (Fin 1) (Fin (8388609 / 8388608)) = Fin (- (1 / 8388608))"
  by (simp add: fsub_def, rule fl_eval [where e = "- 23"])
     (simp_all add: pow2_def round_even_def Let_def max32_def)

lemma trace32_b: "fadd (Fin (- (1 / 8388608))) (Fin (13421773 / 134217728)) = Fin (13421757 / 134217728)"
  by (simp, rule fl_eval [where e = "- 4"])
     (simp_all add: pow2_def round_even_def Let_def max32_def)

lemma trace32_c: "fsub (Fin (- (1 / 8388608))) (Fin (13421757 / 134217728)) = Fin (- (13421773 / 134217728))"
  by (simp add: fsub_def, rule fl_eval [where e = "- 4"])
     (simp_all add: pow2_def round_even_def Let_def max32_def)

lemma trace32_w: "fdiv (Fin (- (1 / 8388608))) (Fin (- (13421773 / 134217728))) = Fin (5 / 4194304)"
  by (simp, rule fl_eval [where e = "- 20"])
     (simp_all add: pow2_def round_even_def Let_def max32_def)

lemma trace32_v: "fsub (Fin 1) (Fin (5 / 4194304)) = Fin (4194299 / 4194304)"
  by (simp add: fsub_def, rule fl_eval [where e = "- 1"])
     (simp_all add: pow2_def round_even_def Let_def max32_def)

lemma trace32_X: "fmul (Fin (9646899 / 16777216)) (Fin (5 / 4194304)) = Fin (23 / 33554432)"
  by (simp, rule fl_eval [where e = "- 21"])
     (simp_all add: pow2_def round_even_def Let_def max32_def)

lemma trace32_Y: "fmul (Fin (9646899 / 16777216)) (Fin (4194299 / 4194304)) = Fin (1205861 / 2097152)"
  by (simp, rule fl_eval [where e = "- 1"])
     (simp_all add: pow2_def round_even_def Let_def max32_def)

lemma trace32_out: "fadd (Fin (23 / 33554432)) (Fin (1205861 / 2097152)) = Fin (2411725 / 4194304)"
  by (simp, rule fl_eval [where e = "- 1"])
     (simp_all add: pow2_def round_even_def Let_def max32_def)

lemma trace32_X': "fmul (Fin (1 / 2)) (Fin (5 / 4194304)) = Fin (5 / 8388608)"
  by (simp, rule fl_eval [where e = "- 21"])
     (simp_all add: pow2_def round_even_def Let_def max32_def)

lemma trace32_Y': "fmul (Fin (1 / 2)) (Fin (4194299 / 4194304)) = Fin (4194299 / 8388608)"
  by (simp, rule fl_eval [where e = "- 2"])
     (simp_all add: pow2_def round_even_def Let_def max32_def)

lemma trace32_out': "fadd (Fin (5 / 8388608)) (Fin (4194299 / 8388608)) = Fin (1 / 2)"
  by (simp, rule fl_eval [where e = "- 1"])
     (simp_all add: pow2_def round_even_def Let_def max32_def)

lemma trace32_delta:
  "fdiv (Fin 0) (Fin 1) = Fin 0" "fmul (Fin 0) (Fin 0) = Fin 0" "fdiv (Fin 0) (Fin 10) = Fin 0"
  by (simp_all add: fl_zero)

text \<open>
  At that input the returned first component is one place above the input, \<open>9646900 / 2 ^ 24\<close>
  for \<open>9646899 / 2 ^ 24\<close>: the interpolation rounds. With \<^verbatim>\<open>viewDir.z = 0\<close> the result is NaN.
\<close>

lemma interpolation_rounds32:
  "ParallaxMapping32 (constant_field32 1) (Fin 0)
     (fvec2 (Fin (9646899 / 16777216)) (Fin (1 / 2))) (fvec3 (Fin 0) (Fin 0) (Fin 1))
   = Some (fvec2 (Fin (2411725 / 4194304)) (Fin (1 / 2)))"
  by (simp add: ParallaxMapping32_def ParallaxMapping_loop32_def ParallaxMapping_prologue32_def
      march32.simps loop_body32_def ParallaxMapping_epilogue32_def Let_def constant_field32_def
      tenth32 sum_step1 sum_step2 sum_step3 sum_step4 sum_step5 sum_step6 sum_step7 sum_step8
      sum_step9 sum_step10 trace32 trace32_a trace32_b trace32_c trace32_w trace32_v trace32_X
      trace32_Y trace32_out trace32_X' trace32_Y' trace32_out' trace32_delta
      del: fadd.simps fmul.simps fdiv.simps)

lemma zero_viewDir_z_nan32:
  "ParallaxMapping32 (constant_field32 0) (Fin 0)
     (fvec2 (Fin (1 / 2)) (Fin (1 / 2))) (fvec3 (Fin 1) (Fin 0) (Fin 0))
   = Some (fvec2 NaN NaN)"
  by (simp add: ParallaxMapping32_def ParallaxMapping_loop32_def ParallaxMapping_prologue32_def
      march32.simps ParallaxMapping_epilogue32_def Let_def constant_field32_def fsub_def)

section \<open>Vector algebra\<close>

lemma dot_self_nonneg: "0 \<le> dot v v"
  by (simp add: dot_def)

lemma dot_self_zero_iff: "dot v v = 0 \<longleftrightarrow> v = vec3 0 0 0"
proof (cases v)
  case (vec3 a b c)
  have "a * a + b * b + c * c = 0 \<longleftrightarrow> a = 0 \<and> b = 0 \<and> c = 0"
    by (smt (verit) mult_eq_0_iff zero_le_square add_nonneg_eq_0_iff add_nonneg_nonneg)
  with vec3 show ?thesis by (simp add: dot_def)
qed

lemma dot_commute: "dot a b = dot b a"
  by (simp add: dot_def mult.commute)

lemma dot_scale_left: "dot (vec3_scale a k) b = k * dot a b"
  by (simp add: dot_def vec3_scale_def algebra_simps)

lemma dot_scale_right: "dot a (vec3_scale b k) = k * dot a b"
  by (simp add: dot_def vec3_scale_def algebra_simps)

lemma cross_scale_left: "cross (vec3_scale a k) b = vec3_scale (cross a b) k"
  by (simp add: cross_def vec3_scale_def algebra_simps)

lemma cross_scale_right: "cross a (vec3_scale b k) = vec3_scale (cross a b) k"
  by (simp add: cross_def vec3_scale_def algebra_simps)

lemma dot_cross_left: "dot a (cross a b) = 0"
  by (simp add: dot_def cross_def algebra_simps)


lemma cross_self: "cross a a = vec3 0 0 0"
  by (simp add: cross_def)

lemma lagrange: "dot (cross a b) (cross a b) = dot a a * dot b b - dot a b * dot a b"
  by (simp add: dot_def cross_def algebra_simps)


lemma vec3_scale_one: "vec3_scale v 1 = v"
  by (simp add: vec3_scale_def)

lemma normalize_unit: "dot v v = 1 \<Longrightarrow> vec3_normalize v = Inr v"
  by (simp add: vec3_normalize_def vec3_scale_one)

lemma normalize_Inr_iff: "(\<exists>u. vec3_normalize v = Inr u) \<longleftrightarrow> v \<noteq> vec3 0 0 0"
  by (simp add: vec3_normalize_def dot_self_zero_iff)

lemma normalize_Inl_iff: "vec3_normalize v = Inl e \<longleftrightarrow> v = vec3 0 0 0"
  by (cases e) (simp add: vec3_normalize_def dot_self_zero_iff)

lemma normalize_Inr:
  assumes "vec3_normalize v = Inr u"
  shows "u = vec3_scale v (1 / sqrt (dot v v))" and "dot u u = 1" and "0 < dot v v"
proof -
  from assms have nz: "dot v v \<noteq> 0" and u: "u = vec3_scale v (1 / sqrt (dot v v))"
    by (auto simp add: vec3_normalize_def split: if_splits)
  from nz dot_self_nonneg [of v] show pos: "0 < dot v v" by simp
  show "u = vec3_scale v (1 / sqrt (dot v v))" by (rule u)
  have "dot u u = (1 / sqrt (dot v v)) * ((1 / sqrt (dot v v)) * dot v v)"
    unfolding u by (simp add: dot_scale_left dot_scale_right)
  also have "\<dots> = dot v v / (sqrt (dot v v) * sqrt (dot v v))" by simp
  also have "\<dots> = 1" using pos by simp
  finally show "dot u u = 1" .
qed

lemma sphere_point:
  fixes a b c d :: real
  assumes "a * a + b * b = 1" and "c * c + d * d = 1"
  shows "(a * c) * (a * c) + d * d + (b * c) * (b * c) = 1"
proof -
  have "(a * c) * (a * c) + d * d + (b * c) * (b * c) = (a * a + b * b) * (c * c) + d * d"
    by (simp add: algebra_simps)
  with assms show ?thesis by simp
qed

lemma cos_sin_square: "cos t * cos t + sin t * sin t = (1::real)"
  using sin_cos_squared_add2 [of t] by (simp add: power2_eq_square)

lemma euler_front_unit: "dot (euler_front yaw pitch) (euler_front yaw pitch) = 1"
  unfolding dot_def euler_front_def vec3.sel
  by (rule sphere_point) (rule cos_sin_square)+

section \<open>\<^verbatim>\<open>updateCameraVectors\<close>\<close>

lemma normalized_cross_orth:
  assumes "vec3_normalize (cross f w) = Inr r"
  shows "dot r f = 0"
proof -
  from normalize_Inr(1) [OF assms] obtain k where "r = vec3_scale (cross f w) k" by blast
  then have "dot r f = k * dot (cross f w) f" by (simp add: dot_scale_left)
  also have "dot (cross f w) f = dot f (cross f w)" by (rule dot_commute)
  finally show ?thesis by (simp add: dot_cross_left)
qed

lemma update_Inr:
  assumes "updateCameraVectors c = Inr c'"
  shows "\<exists>right. vec3_normalize (cross (euler_front (Yaw c) (Pitch c)) (WorldUp c)) = Inr right \<and>
           c' = c\<lparr>Front := euler_front (Yaw c) (Pitch c), Right := right,
                  Up := cross right (euler_front (Yaw c) (Pitch c))\<rparr>"
proof -
  let ?f = "euler_front (Yaw c) (Pitch c)"
  have f: "vec3_normalize ?f = Inr ?f" by (rule normalize_unit) (rule euler_front_unit)
  from assms f obtain r where r: "vec3_normalize (cross ?f (WorldUp c)) = Inr r"
    by (auto simp add: updateCameraVectors_def split: sum.splits)
  from normalize_Inr [OF r] have rr: "dot r r = 1" by simp
  from r have rf: "dot r ?f = 0" by (rule normalized_cross_orth)
  have "dot (cross r ?f) (cross r ?f) = 1"
    by (simp add: lagrange rr rf euler_front_unit)
  then have u: "vec3_normalize (cross r ?f) = Inr (cross r ?f)" by (rule normalize_unit)
  from assms f r u have "c' = c\<lparr>Front := ?f, Right := r, Up := cross r ?f\<rparr>"
    by (simp add: updateCameraVectors_def)
  with r show ?thesis by blast
qed


lemma update_succeeds_iff:
  "(\<exists>c'. updateCameraVectors c = Inr c') \<longleftrightarrow>
     cross (euler_front (Yaw c) (Pitch c)) (WorldUp c) \<noteq> vec3 0 0 0"
proof
  assume "\<exists>c'. updateCameraVectors c = Inr c'"
  then obtain c' where "updateCameraVectors c = Inr c'" ..
  from update_Inr [OF this] show "cross (euler_front (Yaw c) (Pitch c)) (WorldUp c) \<noteq> vec3 0 0 0"
    using normalize_Inr_iff by blast
next
  let ?f = "euler_front (Yaw c) (Pitch c)"
  assume "cross ?f (WorldUp c) \<noteq> vec3 0 0 0"
  then obtain r where r: "vec3_normalize (cross ?f (WorldUp c)) = Inr r"
    using normalize_Inr_iff by blast
  have f: "vec3_normalize ?f = Inr ?f" by (rule normalize_unit) (rule euler_front_unit)
  from normalize_Inr [OF r] have rr: "dot r r = 1" by simp
  from r have rf: "dot r ?f = 0" by (rule normalized_cross_orth)
  have "dot (cross r ?f) (cross r ?f) = 1"
    by (simp add: lagrange rr rf euler_front_unit)
  then have u: "vec3_normalize (cross r ?f) = Inr (cross r ?f)" by (rule normalize_unit)
  from f r u show "\<exists>c'. updateCameraVectors c = Inr c'"
    by (simp add: updateCameraVectors_def)
qed

lemma update_fails_iff:
  "updateCameraVectors c = Inl DivisionByZero \<longleftrightarrow>
     cross (euler_front (Yaw c) (Pitch c)) (WorldUp c) = vec3 0 0 0"
proof -
  have "updateCameraVectors c = Inl DivisionByZero \<longleftrightarrow> \<not> (\<exists>c'. updateCameraVectors c = Inr c')"
    by (cases "updateCameraVectors c") (auto intro: error.exhaust)
  then show ?thesis by (simp add: update_succeeds_iff)
qed

lemma update_fields:
  assumes "updateCameraVectors c = Inr c'"
  shows "Position c' = Position c" "WorldUp c' = WorldUp c" "Yaw c' = Yaw c" "Pitch c' = Pitch c"
    "MovementSpeed c' = MovementSpeed c" "MouseSensitivity c' = MouseSensitivity c" "Zoom c' = Zoom c"
  using update_Inr [OF assms] by auto

section \<open>Rotating, zooming, moving and viewing\<close>

lemma angles_fields:
  "Position (ProcessMouseMovement_angles x y cp c) = Position c"
  "WorldUp (ProcessMouseMovement_angles x y cp c) = WorldUp c"
  "MouseSensitivity (ProcessMouseMovement_angles x y cp c) = MouseSensitivity c"
  "MovementSpeed (ProcessMouseMovement_angles x y cp c) = MovementSpeed c"
  "Zoom (ProcessMouseMovement_angles x y cp c) = Zoom c"
  "Yaw (ProcessMouseMovement_angles x y cp c) = Yaw c + x * MouseSensitivity c"
  by (simp_all add: ProcessMouseMovement_angles_def Let_def)

lemma angles_pitch_clamped:
  "- 89 \<le> Pitch (ProcessMouseMovement_angles x y True c) \<and>
   Pitch (ProcessMouseMovement_angles x y True c) \<le> 89"
  by (simp add: ProcessMouseMovement_angles_def Let_def)

lemma angles_pitch:
  "Pitch (ProcessMouseMovement_angles x y True c) =
     max (- 89) (min 89 (Pitch c + y * MouseSensitivity c))"
  "Pitch (ProcessMouseMovement_angles x y False c) = Pitch c + y * MouseSensitivity c"
  by (simp_all add: ProcessMouseMovement_angles_def Let_def)

lemma cos_radians_pos:
  assumes "- 89 \<le> p" and "p \<le> 89"
  shows "0 < cos (radians p)"
proof (rule cos_gt_zero_pi)
  have pi: "0 < pi" by (rule pi_gt_zero)
  have "- (89 * pi) \<le> p * pi" using mult_right_mono [OF assms(1), of pi] pi by simp
  moreover have "- (90 * pi) < - (89 * pi)" using pi by simp
  ultimately have "- (90 * pi) < p * pi" by linarith
  then show "- (pi / 2) < radians p" by (simp add: radians_def)
  have "p * pi \<le> 89 * pi" using mult_right_mono [OF assms(2), of pi] pi by simp
  moreover have "89 * pi < 90 * pi" using pi by simp
  ultimately have "p * pi < 90 * pi" by linarith
  then show "radians p < pi / 2" by (simp add: radians_def)
qed

lemma default_up_defined:
  assumes "WorldUp c = vec3 0 1 0" and "- 89 \<le> Pitch c" and "Pitch c \<le> 89"
  shows "\<exists>c'. updateCameraVectors c = Inr c'"
proof -
  have cp: "cos (radians (Pitch c)) \<noteq> 0"
    using cos_radians_pos [OF assms(2,3)] by simp
  have "\<not> (sin (radians (Yaw c)) = 0 \<and> cos (radians (Yaw c)) = 0)"
    by (auto dest: sin_zero_abs_cos_one)
  with cp have "cross (euler_front (Yaw c) (Pitch c)) (WorldUp c) \<noteq> vec3 0 0 0"
    by (auto simp add: cross_def euler_front_def assms(1))
  then show ?thesis by (simp add: update_succeeds_iff)
qed

text \<open>
  With the default world-up \<open>(0, 1, 0)\<close> and \<^verbatim>\<open>constrainPitch\<close> set in every call, no sequence
  of calls meets a front parallel to world-up: the pitch stays within 89 degrees, where
  its cosine is positive.
\<close>

lemma rotate_all_default_up:
  assumes "WorldUp c = vec3 0 1 0" and "\<forall>call \<in> set calls. snd (snd call)"
  shows "\<exists>c'. rotate_all c calls = Inr c'"
  using assms
proof (induction calls arbitrary: c)
  case Nil
  show ?case by simp
next
  case (Cons call calls)
  obtain x y cp where call: "call = (x, y, cp)" by (cases call)
  with Cons.prems(2) have cp: "cp" by simp
  let ?a = "ProcessMouseMovement_angles x y True c"
  have "\<exists>c1. updateCameraVectors ?a = Inr c1"
    using Cons.prems(1) angles_pitch_clamped [of x y c]
    by (intro default_up_defined) (simp_all add: angles_fields)
  then obtain c1 where c1: "updateCameraVectors ?a = Inr c1" ..
  have "WorldUp c1 = vec3 0 1 0"
    using update_fields(2) [OF c1] Cons.prems(1) by (simp add: angles_fields)
  with Cons.IH [of c1] Cons.prems(2) obtain c' where "rotate_all c1 calls = Inr c'" by auto
  with c1 cp call show ?case by (simp add: ProcessMouseMovement_def)
qed




lemma main_camera_new: "Camera_new (vec3 0 0 3) (vec3 0 1 0) YAW PITCH = Inr main_camera"
  by (simp add: Camera_new_def updateCameraVectors_def euler_front_def radians_def YAW_def PITCH_def
      SPEED_def SENSITIVITY_def ZOOM_def vec3_normalize_def dot_def cross_def vec3_scale_def main_camera_def)

lemma side_camera_new: "Camera_new (vec3 0 0 0) (vec3 1 0 0) YAW PITCH = Inr side_camera"
  by (simp add: Camera_new_def updateCameraVectors_def euler_front_def radians_def YAW_def PITCH_def
      SPEED_def SENSITIVITY_def ZOOM_def vec3_normalize_def dot_def cross_def vec3_scale_def side_camera_def)




text \<open>
  C7. With \<^verbatim>\<open>constrainPitch\<close> set, a call of \<^verbatim>\<open>ProcessMouseMovement\<close> leaves the pitch at
  \<open>Pitch + yoffset * MouseSensitivity\<close> clamped to the closed interval from -89 to 89, for
  any offsets; so from a pitch in that interval every finite sequence of such calls ends
  with a pitch that is at most 89 and at least -89.
\<close>

theorem pitch_stays_clamped:
  "Pitch (ProcessMouseMovement_angles xoffset yoffset True c) =
     max (- 89) (min 89 (Pitch c + yoffset * MouseSensitivity c))
   \<and> (ProcessMouseMovement xoffset yoffset True c = Inr c1 \<longrightarrow>
        - 89 \<le> Pitch c1 \<and> Pitch c1 \<le> 89)
   \<and> (- 89 \<le> Pitch c \<and> Pitch c \<le> 89 \<and> (\<forall>call \<in> set calls. snd (snd call)) \<and>
      rotate_all c calls = Inr c2 \<longrightarrow> - 89 \<le> Pitch c2 \<and> Pitch c2 \<le> 89)"
proof -
  have one: "- 89 \<le> Pitch c1 \<and> Pitch c1 \<le> 89"
    if "ProcessMouseMovement x y True c0 = Inr c1" for x y c0 c1
    using update_fields(4) [OF that [unfolded ProcessMouseMovement_def]]
      angles_pitch_clamped [of x y c0] by simp
  have seq: "- 89 \<le> Pitch c \<and> Pitch c \<le> 89 \<Longrightarrow> \<forall>call \<in> set calls. snd (snd call) \<Longrightarrow>
      rotate_all c calls = Inr c2 \<Longrightarrow> - 89 \<le> Pitch c2 \<and> Pitch c2 \<le> 89"
  proof (induction calls arbitrary: c)
    case Nil
    then show ?case by simp
  next
    case (Cons call calls)
    obtain x y cp where call: "call = (x, y, cp)" by (cases call)
    with Cons.prems(2) have cp: "cp" by simp
    from Cons.prems(3) call cp obtain c1 where c1: "ProcessMouseMovement x y True c = Inr c1"
      and rest: "rotate_all c1 calls = Inr c2"
      by (auto split: sum.splits)
    from one [OF c1] Cons.prems(2) rest show ?case by (intro Cons.IH) simp_all
  qed
  from one seq show ?thesis by (auto simp add: angles_pitch(1))
qed

text \<open>A large upward offset, then a small one, on the camera of \<^verbatim>\<open>main.cpp\<close>.\<close>

theorem pitch_stays_clamped_witness:
  "\<exists>c2. rotate_all main_camera [(0, 10000, True), (0, 5, True)] = Inr c2
        \<and> - 89 \<le> Pitch c2 \<and> Pitch c2 \<le> 89"
proof -
  have "\<exists>c2. rotate_all main_camera [(0, 10000, True), (0, 5, True)] = Inr c2"
    by (rule rotate_all_default_up) (simp_all add: main_camera_def)
  then obtain c2 where "rotate_all main_camera [(0, 10000, True), (0, 5, True)] = Inr c2" ..
  moreover have "- 89 \<le> Pitch main_camera \<and> Pitch main_camera \<le> 89"
    by (simp add: main_camera_def)
  ultimately show ?thesis
    using pitch_stays_clamped [of 0 0 main_camera c2 "[(0, 10000, True), (0, 5, True)]" c2]
    by auto
qed

lemma scroll_zoom: "Zoom (ProcessMouseScroll yoffset c) = min 45 (max 1 (Zoom c - yoffset))"
  by (simp add: ProcessMouseScroll_def Let_def)

lemma zoom_all_range:
  "1 \<le> Zoom c \<and> Zoom c \<le> 45 \<Longrightarrow>
   1 \<le> Zoom (zoom_all c yoffsets) \<and> Zoom (zoom_all c yoffsets) \<le> 45"
proof (induction yoffsets arbitrary: c)
  case Nil
  then show ?case by simp
next
  case (Cons y ys)
  have "1 \<le> Zoom (ProcessMouseScroll y c) \<and> Zoom (ProcessMouseScroll y c) \<le> 45"
    by (simp add: scroll_zoom)
  from Cons.IH [OF this] show ?case by simp
qed

text \<open>
  C8. \<^verbatim>\<open>ProcessMouseScroll\<close> subtracts \<^verbatim>\<open>yoffset\<close> from \<^verbatim>\<open>Zoom\<close> and clamps the result to
  \<open>[1, 45]\<close>; from a zoom in \<open>[1, 45]\<close>, every finite sequence of calls, with any offsets,
  ends with a zoom in \<open>[1, 45]\<close>.
\<close>

theorem zoom_stays_clamped:
  "Zoom (ProcessMouseScroll yoffset c) = min 45 (max 1 (Zoom c - yoffset))
   \<and> (1 \<le> Zoom c \<and> Zoom c \<le> 45 \<longrightarrow>
        1 \<le> Zoom (zoom_all c yoffsets) \<and> Zoom (zoom_all c yoffsets) \<le> 45)"
  using scroll_zoom zoom_all_range by blast

text \<open>Zooming all the way in, all the way out, then in by 3.\<close>

theorem zoom_stays_clamped_witness:
  "Zoom (zoom_all main_camera [100, - 100, 3]) = 42
   \<and> 1 \<le> Zoom (zoom_all main_camera [100, - 100, 3])
   \<and> Zoom (zoom_all main_camera [100, - 100, 3]) \<le> 45"
  using zoom_stays_clamped [of 0 main_camera "[100, - 100, 3]"]
  by (simp add: main_camera_def ProcessMouseScroll_def Let_def)

text \<open>
  What \<^verbatim>\<open>ProcessKeyboard\<close> does to the position: \<^verbatim>\<open>FORWARD\<close> and \<^verbatim>\<open>BACKWARD\<close> move by twice
  the velocity, the other four directions by the velocity; no other field changes.
\<close>

lemma ProcessKeyboard_position:
  "Position (ProcessKeyboard FORWARD deltaTime c) =
     vec3_add (Position c) (vec3_scale (Front c) (2 * (MovementSpeed c * deltaTime)))"
  "Position (ProcessKeyboard BACKWARD deltaTime c) =
     vec3_sub (Position c) (vec3_scale (Front c) (2 * (MovementSpeed c * deltaTime)))"
  "Position (ProcessKeyboard LEFT deltaTime c) =
     vec3_sub (Position c) (vec3_scale (Right c) (MovementSpeed c * deltaTime))"
  "Position (ProcessKeyboard RIGHT deltaTime c) =
     vec3_add (Position c) (vec3_scale (Right c) (MovementSpeed c * deltaTime))"
  "Position (ProcessKeyboard UP deltaTime c) =
     vec3_add (Position c) (vec3_scale (Up c) (MovementSpeed c * deltaTime))"
  "Position (ProcessKeyboard DOWN deltaTime c) =
     vec3_sub (Position c) (vec3_scale (Up c) (MovementSpeed c * deltaTime))"
  by (simp_all add: ProcessKeyboard_def Let_def vec3_add_def vec3_sub_def vec3_scale_def)

lemma ProcessKeyboard_other_fields:
  "ProcessKeyboard direction deltaTime c = c\<lparr>Position := Position (ProcessKeyboard direction deltaTime c)\<rparr>"
  by (cases direction) (simp_all add: ProcessKeyboard_def Let_def)

text \<open>
  C9. The claim is that \<^verbatim>\<open>FORWARD\<close> with \<^verbatim>\<open>deltaTime = 1\<close> and \<^verbatim>\<open>MovementSpeed = 2.5\<close> advances
  the position by \<open>2.5 * Front\<close>. From \<open>(0, 0, 3)\<close> with front \<open>(0, 0, -1)\<close> that would be
  \<open>(0, 0, 1/2)\<close>; the code, which has the assignment twice, arrives at \<open>(0, 0, -2)\<close>.
\<close>

theorem forward_displaces_twice:
  "Position (ProcessKeyboard FORWARD 1 main_camera) = vec3 0 0 (- 2)
   \<and> vec3_add (Position main_camera) (vec3_scale (Front main_camera) (2.5 * 1)) = vec3 0 0 (1 / 2)"
  by (simp add: ProcessKeyboard_def main_camera_def Let_def vec3_add_def vec3_scale_def)

lemma lookat_product:
  "mat4_mul_vec4
     (mat4_mul (mat4 (vec4 rx ux dx 0) (vec4 ry uy dy 0) (vec4 rz uz dz 0) (vec4 0 0 0 1))
               (mat4 (vec4 1 0 0 0) (vec4 0 1 0 0) (vec4 0 0 1 0) (vec4 (- px) (- py) (- pz) 1)))
     (vec4 px py pz 1) = vec4 0 0 0 1"
  by (simp add: mat4_mul_def mat4_mul_vec4_def vec4_add_def vec4_scale_def algebra_simps)

lemma calc_lookat_origin:
  assumes "calc_lookat position target worldup = Inr M"
  shows "mat4_mul_vec4 M (vec4 (vec3_x position) (vec3_y position) (vec3_z position) 1) = vec4 0 0 0 1"
  using assms by (auto simp add: calc_lookat_def Let_def lookat_product split: sum.splits)

lemma vec3_scale_zero_iff: "vec3_scale v k = vec3 0 0 0 \<longleftrightarrow> k = 0 \<or> v = vec3 0 0 0"
  by (cases v) (auto simp add: vec3_scale_def)

lemma GetViewMatrix_defined_iff:
  "(\<exists>M. GetViewMatrix c = Inr M) \<longleftrightarrow> cross (Up c) (Front c) \<noteq> vec3 0 0 0"
proof -
  let ?d = "vec3_sub (Position c) (vec3_add (Position c) (Front c))"
  have d: "?d = vec3_neg (Front c)"
    by (simp add: vec3_sub_def vec3_add_def vec3_neg_def)
  have neg: "cross u (vec3_neg f) = vec3_neg (cross u f)" for u f
    by (simp add: cross_def vec3_neg_def)
  have negz: "vec3_neg v = vec3 0 0 0 \<longleftrightarrow> v = vec3 0 0 0" for v
    by (cases v) (simp add: vec3_neg_def)
  show ?thesis
  proof (cases "Front c = vec3 0 0 0")
    case True
    then have "?d = vec3 0 0 0"
      by (simp add: vec3_sub_def vec3_add_def)
    then have "vec3_normalize ?d = Inl DivisionByZero"
      by (simp only: normalize_Inl_iff)
    moreover from True have "cross (Up c) (Front c) = vec3 0 0 0" by (simp add: cross_def)
    ultimately show ?thesis by (simp add: GetViewMatrix_def calc_lookat_def)
  next
    case False
    then obtain dir where dir: "vec3_normalize ?d = Inr dir"
      using normalize_Inr_iff [of ?d] by (auto simp add: d negz)
    from normalize_Inr [OF dir] have dirdef: "dir = vec3_scale ?d (1 / sqrt (dot ?d ?d))"
      and pos: "0 < dot ?d ?d" by simp_all
    from pos have k: "1 / sqrt (dot ?d ?d) \<noteq> 0" by simp
    have "cross (Up c) dir = vec3_scale (vec3_neg (cross (Up c) (Front c))) (1 / sqrt (dot ?d ?d))"
      by (subst dirdef) (simp add: cross_scale_right d neg)
    with k have z: "cross (Up c) dir = vec3 0 0 0 \<longleftrightarrow> cross (Up c) (Front c) = vec3 0 0 0"
      by (simp add: vec3_scale_zero_iff negz)
    show ?thesis
    proof (cases "cross (Up c) (Front c) = vec3 0 0 0")
      case True
      with z have "vec3_normalize (cross (Up c) dir) = Inl DivisionByZero"
        by (simp add: normalize_Inl_iff)
      with dir True show ?thesis by (simp add: GetViewMatrix_def calc_lookat_def)
    next
      case False
      with z obtain r where "vec3_normalize (cross (Up c) dir) = Inr r"
        using normalize_Inr_iff [of "cross (Up c) dir"] by auto
      with dir False show ?thesis by (simp add: GetViewMatrix_def calc_lookat_def Let_def)
    qed
  qed
qed

text \<open>
  In exact arithmetic, for every camera whose \<^verbatim>\<open>Up\<close> and \<^verbatim>\<open>Front\<close> are not parallel, and so
  for every orthonormal camera, \<^verbatim>\<open>GetViewMatrix\<close> returns a matrix and that matrix maps the
  camera's position, as a point with \<open>w = 1\<close>, to \<open>(0, 0, 0, 1)\<close>. The products inside
  \<^verbatim>\<open>glm::mat4\<close> round in an order that is GLM's own, so nothing is said here of the value
  the program computes.
\<close>

lemma view_matrix_origin_exact:
  assumes "cross (Up c) (Front c) \<noteq> vec3 0 0 0"
  shows "\<exists>M. GetViewMatrix c = Inr M \<and>
           mat4_mul_vec4 M (vec4 (vec3_x (Position c)) (vec3_y (Position c)) (vec3_z (Position c)) 1)
             = vec4 0 0 0 1"
proof -
  from assms obtain M where M: "GetViewMatrix c = Inr M"
    using GetViewMatrix_defined_iff by blast
  then have "mat4_mul_vec4 M (vec4 (vec3_x (Position c)) (vec3_y (Position c)) (vec3_z (Position c)) 1)
             = vec4 0 0 0 1"
    unfolding GetViewMatrix_def by (rule calc_lookat_origin)
  with M show ?thesis by blast
qed

lemma main_camera_view:
  "GetViewMatrix main_camera =
     Inr (mat4 (vec4 1 0 0 0) (vec4 0 1 0 0) (vec4 0 0 1 0) (vec4 0 0 (- 3) 1))"
  by (simp add: GetViewMatrix_def calc_lookat_def main_camera_def vec3_normalize_def dot_def cross_def
      vec3_sub_def vec3_add_def vec3_scale_def mat4_mul_def mat4_mul_vec4_def vec4_add_def
      vec4_scale_def Let_def)

text \<open>The camera of \<^verbatim>\<open>main.cpp\<close>: its view matrix is a translation by \<open>(0, 0, -3)\<close>.\<close>

lemma main_camera_view_origin:
  "cross (Up main_camera) (Front main_camera) \<noteq> vec3 0 0 0
   \<and> GetViewMatrix main_camera =
       Inr (mat4 (vec4 1 0 0 0) (vec4 0 1 0 0) (vec4 0 0 1 0) (vec4 0 0 (- 3) 1))
   \<and> mat4_mul_vec4 (mat4 (vec4 1 0 0 0) (vec4 0 1 0 0) (vec4 0 0 1 0) (vec4 0 0 (- 3) 1))
       (vec4 0 0 3 1) = vec4 0 0 0 1"
proof -
  have h: "cross (Up main_camera) (Front main_camera) \<noteq> vec3 0 0 0"
    by (simp add: main_camera_def cross_def)
  show ?thesis
    using h view_matrix_origin_exact [OF h] main_camera_view
    by (simp add: main_camera_def)
qed

lemma orthonormal_view_matrix_origin:
  assumes "orthonormal c"
  shows "\<exists>M. GetViewMatrix c = Inr M \<and>
           mat4_mul_vec4 M (vec4 (vec3_x (Position c)) (vec3_y (Position c)) (vec3_z (Position c)) 1)
             = vec4 0 0 0 1"
proof (rule view_matrix_origin_exact)
  from assms have "dot (cross (Up c) (Front c)) (cross (Up c) (Front c)) = 1"
    by (simp add: orthonormal_def lagrange dot_commute [of "Up c" "Front c"])
  then show "cross (Up c) (Front c) \<noteq> vec3 0 0 0"
    by (auto simp add: dot_def)
qed

end
